theory Spec2Isabelle
  imports Main
begin

section \<open>The overcooked actor-critic model (dizoo/overcooked/models/overcooked\_vac.py)\<close>

text \<open>
  The module defines two classes, \<open>ConvEncoder\<close> and \<open>VAC\<close>, on top of a tensor
  framework. Sizes (channels, widths, dimensions) are natural numbers. Every \<open>raise\<close>
  and failed \<open>assert\<close> of the source, and every error raised by the framework while a
  constructor or a forward pass runs, is a value of \<open>error\<close>; \<open>assert\<close> statements are
  taken as enabled.
\<close>

subsection \<open>Shapes, errors and layers\<close>

text \<open>\<open>Union[int, SequenceType]\<close>: an observation or action shape is an integer or a
  sequence of integers.\<close>

datatype shape = SInt nat | SSeq "nat list"

datatype error =
    IndexError
  | KeyError string
  | AttributeError string
  | TypeError
  | AssertionError string
  | RuntimeError_obs_shape shape
  | FrameworkError

text \<open>\<open>RuntimeError_obs_shape s\<close> is the \<open>RuntimeError\<close> of \<open>VAC.__init__\<close>, whose
  message is built from the squeezed observation shape \<open>s\<close>. \<open>FrameworkError\<close> stands for
  any error raised inside a framework layer (a shape mismatch, a dimension out of range).
  \<open>TypeError\<close> is the call of \<open>None\<close> where a module is expected.\<close>

datatype activation = ReLU | Act string

text \<open>The entries of \<open>layers\<close> in \<open>ConvEncoder.__init__\<close>:
  \<open>nn.Conv2d(in, out, kernel_size, stride)\<close>, the activation object \<open>self.act\<close> itself
  (\<open>Optional[nn.Module]\<close>), \<open>ResBlock(width, activation, norm_type)\<close> and
  \<open>nn.Flatten()\<close>.\<close>

datatype layer =
    Conv2d nat nat nat nat
  | ActLayer "activation option"
  | ResBlock nat "activation option" "string option"
  | Flatten

datatype linear = Linear nat nat

subsection \<open>The framework's layers on tensor shapes\<close>

text \<open>
  A tensor is represented by its shape. The constructors of the framework's layers are
  taken to succeed. \<open>nn.Conv2d\<close> takes a batched image \<open>(N, C, H, W)\<close> whose channel
  count is its \<open>in_channels\<close> and whose height and width are at least the kernel size; the
  activation keeps the shape, and calling \<open>None\<close> is a \<open>TypeError\<close>; \<open>nn.Flatten()\<close>
  keeps the first dimension and multiplies the others.
\<close>

text \<open>Modelled from the spec: \<open>ResBlock\<close>, imported from ding.torch\_utils and not defined in
  this module, is the spec's "residual block" of a given width; it keeps the shape of a
  batched image with that many channels.\<close>

definition ResBlock_forward :: "nat \<Rightarrow> nat list \<Rightarrow> error + nat list" where
  "ResBlock_forward c x =
     (case x of
        [n, c', h, w] \<Rightarrow> if c' = c then Inr x else Inl FrameworkError
      | _ \<Rightarrow> Inl FrameworkError)"

fun layer_forward :: "layer \<Rightarrow> nat list \<Rightarrow> error + nat list" where
  "layer_forward (Conv2d cin cout k s) x =
     (case x of
        [n, c, h, w] \<Rightarrow>
          if c = cin \<and> 0 < k \<and> k \<le> h \<and> k \<le> w \<and> 0 < s
          then Inr [n, cout, (h - k) div s + 1, (w - k) div s + 1]
          else Inl FrameworkError
      | _ \<Rightarrow> Inl FrameworkError)"
| "layer_forward (ActLayer None) x = Inl TypeError"
| "layer_forward (ActLayer (Some a)) x = Inr x"
| "layer_forward (ResBlock c a norm) x = ResBlock_forward c x"
| "layer_forward Flatten x =
     (case x of
        n # d # ds \<Rightarrow> Inr [n, prod_list (d # ds)]
      | _ \<Rightarrow> Inl FrameworkError)"

text \<open>\<open>nn.Sequential\<close>: the layers in order, the first error ends the pass.\<close>

fun sequential_forward :: "layer list \<Rightarrow> nat list \<Rightarrow> error + nat list" where
  "sequential_forward [] x = Inr x"
| "sequential_forward (l # ls) x =
     (case layer_forward l x of
        Inl e \<Rightarrow> Inl e
      | Inr y \<Rightarrow> sequential_forward ls y)"

text \<open>\<open>nn.Linear(in, out)\<close> maps the last dimension \<open>in\<close> to \<open>out\<close>.\<close>

fun linear_forward :: "linear \<Rightarrow> nat list \<Rightarrow> error + nat list" where
  "linear_forward (Linear fin fout) x =
     (if x \<noteq> [] \<and> last x = fin then Inr (butlast x @ [fout]) else Inl FrameworkError)"

subsection \<open>ConvEncoder\<close>

record conv_encoder =
  obs_shape :: "nat list"
  act :: "activation option"
  hidden_size_list :: "nat list"
  main :: "layer list"
  mid :: linear

text \<open>The first loop of \<open>__init__\<close>, over \<open>range(len(kernel_size))\<close>: it reads the
  caller's \<open>hidden_size_list[i]\<close> (an \<open>IndexError\<close> when the list is too short) and
  carries \<open>layers\<close> and \<open>input_size\<close>.\<close>

fun conv_loop ::
  "nat list \<Rightarrow> nat list \<Rightarrow> nat list \<Rightarrow> nat list \<Rightarrow> activation option \<Rightarrow>
   layer list \<Rightarrow> nat \<Rightarrow> error + (layer list \<times> nat)" where
  "conv_loop [] hsl kernel_size stride a layers input_size = Inr (layers, input_size)"
| "conv_loop (i # is) hsl kernel_size stride a layers input_size =
     (if i < length hsl
      then conv_loop is hsl kernel_size stride a
             (layers @ [Conv2d input_size (hsl ! i) (kernel_size ! i) (stride ! i), ActLayer a])
             (hsl ! i)
      else Inl IndexError)"

text \<open>The second loop, over \<open>range(3, len(self.hidden_size_list) - 1)\<close>: one \<open>ResBlock\<close>
  per index, of width \<open>self.hidden_size_list[i]\<close>.\<close>

definition res_loop :: "nat list \<Rightarrow> activation option \<Rightarrow> string option \<Rightarrow> layer list" where
  "res_loop self_hsl a norm_type =
     map (\<lambda>i. ResBlock (self_hsl ! i) a norm_type) [3 ..< length self_hsl - 1]"

text \<open>\<open>_get_flatten_size\<close>: the main stack is run on \<open>torch.randn(1, *self.obs_shape)\<close> and
  the result is \<open>output.shape[1]\<close>. The two \<open>print\<close> calls write to the standard output
  only and are left out.\<close>

definition get_flatten_size :: "nat list \<Rightarrow> layer list \<Rightarrow> error + nat" where
  "get_flatten_size self_obs_shape self_main =
     (let test_data = 1 # self_obs_shape in
      case sequential_forward self_main test_data of
        Inl e \<Rightarrow> Inl e
      | Inr output \<Rightarrow> if 1 < length output then Inr (output ! 1) else Inl IndexError)"

text \<open>\<open>ConvEncoder.__init__(obs_shape, hidden_size_list, activation, norm_type)\<close>.
  \<open>self.hidden_size_list\<close> is assigned the argument and, on the next line, the constant
  \<open>[4, 4, 4]\<close>; the convolutions, the assertion and the final linear layer read the
  argument, the residual-block loop reads the field.\<close>

definition ConvEncoder_init ::
  "nat list \<Rightarrow> nat list \<Rightarrow> activation option \<Rightarrow> string option \<Rightarrow> error + conv_encoder" where
  "ConvEncoder_init obs_shape' hidden_size_list' activation' norm_type =
     (let self_hsl = [4, 4, 4];
          kernel_size = [1, 1, 1];
          stride = [1, 1, 1]
      in case obs_shape' of
           [] \<Rightarrow> Inl IndexError
         | input_size # _ \<Rightarrow>
      (case conv_loop [0 ..< length kernel_size] hidden_size_list' kernel_size stride
              activation' [] input_size of
         Inl e \<Rightarrow> Inl e
       | Inr (layers, _) \<Rightarrow>
           if \<not> length (remdups (drop 3 (take (length hidden_size_list' - 1) hidden_size_list'))) \<le> 1
           then Inl (AssertionError ''Please indicate the same hidden size for res block parts'')
           else
             let layers = layers @ res_loop self_hsl activation' norm_type;
                 layers = layers @ [Flatten]
             in (case get_flatten_size obs_shape' layers of
                   Inl e \<Rightarrow> Inl e
                 | Inr flatten_size \<Rightarrow>
                     if hidden_size_list' = [] then Inl IndexError
                     else Inr \<lparr> obs_shape = obs_shape', act = activation',
                                 hidden_size_list = self_hsl, main = layers,
                                 mid = Linear flatten_size (last hidden_size_list') \<rparr>)))"

text \<open>\<open>ConvEncoder.forward\<close>: \<open>x.float()\<close> keeps the shape; then \<open>self.main\<close> and
  \<open>self.mid\<close>. The encoder object is returned with the result, as the call leaves it.\<close>

definition ConvEncoder_forward :: "conv_encoder \<Rightarrow> nat list \<Rightarrow> conv_encoder \<times> (error + nat list)" where
  "ConvEncoder_forward self x =
     (self,
      case sequential_forward (main self) x of
        Inl e \<Rightarrow> Inl e
      | Inr y \<Rightarrow> linear_forward (mid self) y)"

subsection \<open>VAC: the sub-modules\<close>

text \<open>
  The encoders and heads that \<open>VAC.__init__\<close> builds. \<open>FCEncoder\<close> and the four head
  classes are imported from ding.model.common and not defined in this module: the call of
  such a constructor is recorded with its arguments and taken to succeed. Every
  sub-module carries the parameters \<open>'w\<close> its constructor draws (the learned weights);
  \<open>slot\<close> names the attribute of \<open>self\<close> a sub-module is stored in.
\<close>

datatype slot =
  encoder_slot | actor_encoder_slot | critic_encoder_slot | critic_head_slot | actor_head_slot

datatype encoder_cls = FCEncoder_cls | ConvEncoder_cls

datatype head_cls = DiscreteHead_cls

datatype 'w encoder =
    FCEncoder 'w shape "nat list" "activation option" "string option"
  | ConvEncoder 'w conv_encoder

datatype 'w head =
    RegressionHead 'w nat nat nat "activation option" "string option"
  | ReparameterizationHead 'w nat shape nat string "activation option" "string option"
  | DiscreteHead 'w nat shape nat "activation option" "string option"
  | MultiHead 'w head_cls nat shape nat "activation option" "string option"

datatype 'w module = Enc "'w encoder" | Hd "'w head"

record 'w vac =
  vac_obs_shape :: shape
  action_shape :: shape
  share_encoder :: bool
  encoder :: "'w encoder option"
  actor_encoder :: "'w encoder option"
  critic_encoder :: "'w encoder option"
  critic_head :: "'w head"
  continuous :: bool
  multi_head :: bool
  actor_head :: "'w head"
  actor :: "'w module list"
  critic :: "'w module list"

text \<open>The attribute \<open>obs_shape\<close> of \<open>VAC\<close> is \<open>vac_obs_shape\<close>, the name \<open>obs_shape\<close>
  being that of the encoder's. An attribute that was never assigned (\<open>self.encoder\<close> of a
  model with separate encoders, \<open>self.actor_encoder\<close> of one with a shared encoder) is
  \<open>None\<close> here, and reading it is an \<open>AttributeError\<close>.\<close>

subsection \<open>VAC.\_\_init\_\_\<close>

text \<open>The choice of the encoder class, on the squeezed observation shape:
  \<open>isinstance(obs_shape, int) or len(obs_shape) == 1\<close>, then \<open>len(obs_shape) == 3\<close>, else
  the \<open>RuntimeError\<close>.\<close>

definition select_encoder_cls :: "shape \<Rightarrow> error + encoder_cls" where
  "select_encoder_cls obs_shape' =
     (case obs_shape' of
        SInt n \<Rightarrow> Inr FCEncoder_cls
      | SSeq xs \<Rightarrow>
          if length xs = 1 then Inr FCEncoder_cls
          else if length xs = 3 then Inr ConvEncoder_cls
          else Inl (RuntimeError_obs_shape obs_shape'))"

text \<open>\<open>encoder_cls(obs_shape, encoder_hidden_size_list, activation=..., norm_type=...)\<close>.
  \<open>ConvEncoder.__init__\<close> subscripts its \<open>obs_shape\<close>, a \<open>TypeError\<close> on an integer.\<close>

definition construct_encoder ::
  "encoder_cls \<Rightarrow> 'w \<Rightarrow> shape \<Rightarrow> nat list \<Rightarrow> activation option \<Rightarrow> string option \<Rightarrow>
   error + 'w encoder" where
  "construct_encoder cls w obs_shape' hsl a norm_type =
     (case cls of
        FCEncoder_cls \<Rightarrow> Inr (FCEncoder w obs_shape' hsl a norm_type)
      | ConvEncoder_cls \<Rightarrow>
          (case obs_shape' of
             SInt n \<Rightarrow> Inl TypeError
           | SSeq xs \<Rightarrow>
               (case ConvEncoder_init xs hsl a norm_type of
                  Inl e \<Rightarrow> Inl e
                | Inr ce \<Rightarrow> Inr (ConvEncoder w ce))))"

text \<open>The encoder part of \<open>__init__\<close>: one shared encoder, or the actor's and then the
  critic's. The result is the list of the slots whose constructor was called, in order,
  with the encoders built.\<close>

datatype 'w built_encoders =
    SharedEncoder "'w encoder"
  | SeparateEncoders "'w encoder" "'w encoder"

definition build_encoders ::
  "(slot \<Rightarrow> 'w) \<Rightarrow> encoder_cls \<Rightarrow> bool \<Rightarrow> shape \<Rightarrow> nat list \<Rightarrow> activation option \<Rightarrow>
   string option \<Rightarrow>
   slot list \<times> (error + 'w built_encoders)" where
  "build_encoders init cls share_encoder' obs_shape' hsl a norm_type =
     (if share_encoder' then
        (case construct_encoder cls (init encoder_slot) obs_shape' hsl a norm_type of
           Inl e \<Rightarrow> ([encoder_slot], Inl e)
         | Inr enc \<Rightarrow> ([encoder_slot], Inr (SharedEncoder enc)))
      else
        (case construct_encoder cls (init actor_encoder_slot) obs_shape' hsl a norm_type of
           Inl e \<Rightarrow> ([actor_encoder_slot], Inl e)
         | Inr aenc \<Rightarrow>
             (case construct_encoder cls (init critic_encoder_slot) obs_shape' hsl a norm_type of
                Inl e \<Rightarrow> ([actor_encoder_slot, critic_encoder_slot], Inl e)
              | Inr cenc \<Rightarrow>
                  ([actor_encoder_slot, critic_encoder_slot], Inr (SeparateEncoders aenc cenc)))))"

text \<open>The actor head: \<open>ReparameterizationHead\<close> when continuous, else \<open>DiscreteHead\<close>, under a
  \<open>MultiHead\<close> when the squeezed action shape is not an integer. The result is
  \<open>(self.multi_head, self.actor_head)\<close>.\<close>

definition build_actor_head ::
  "'w \<Rightarrow> bool \<Rightarrow> shape \<Rightarrow> nat \<Rightarrow> nat \<Rightarrow> activation option \<Rightarrow> string option \<Rightarrow> bool \<times> 'w head" where
  "build_actor_head w continuous' action_shape' actor_head_hidden_size actor_head_layer_num
     a norm_type =
     (if continuous' then
        (False,
         ReparameterizationHead w actor_head_hidden_size action_shape' actor_head_layer_num
           ''independent'' a norm_type)
      else
        let actor_head_cls = DiscreteHead_cls;
            multi_head' = (case action_shape' of SInt n \<Rightarrow> False | SSeq xs \<Rightarrow> True)
        in if multi_head' then
             (multi_head',
              MultiHead w actor_head_cls actor_head_hidden_size action_shape'
                actor_head_layer_num a norm_type)
           else
             (multi_head',
              DiscreteHead w actor_head_hidden_size action_shape' actor_head_layer_num
                a norm_type))"

text \<open>\<open>VAC.__init__\<close>. \<open>squeeze\<close> (ding.utils) and the parameters \<open>init\<close> that the sub-module
  constructors draw are arguments. The first component of the result lists the slots whose
  constructor was called before \<open>__init__\<close> returned or raised.\<close>

definition VAC_init ::
  "(shape \<Rightarrow> shape) \<Rightarrow> (slot \<Rightarrow> 'w) \<Rightarrow> shape \<Rightarrow> shape \<Rightarrow> bool \<Rightarrow> bool \<Rightarrow> nat list \<Rightarrow>
   nat \<Rightarrow> nat \<Rightarrow> nat \<Rightarrow> nat \<Rightarrow> activation option \<Rightarrow> string option \<Rightarrow>
   slot list \<times> (error + 'w vac)" where
  "VAC_init squeeze init obs_shape0 action_shape0 share_encoder' continuous'
     encoder_hidden_size_list actor_head_hidden_size actor_head_layer_num
     critic_head_hidden_size critic_head_layer_num a norm_type =
     (let obs_shape' = squeeze obs_shape0;
          action_shape' = squeeze action_shape0
      in case select_encoder_cls obs_shape' of
           Inl e \<Rightarrow> ([], Inl e)
         | Inr cls \<Rightarrow>
      (case build_encoders init cls share_encoder' obs_shape' encoder_hidden_size_list
              a norm_type of
         (allocated, Inl e) \<Rightarrow> (allocated, Inl e)
       | (allocated, Inr encs) \<Rightarrow>
           let critic_head' =
                 RegressionHead (init critic_head_slot) critic_head_hidden_size 1
                   critic_head_layer_num a norm_type;
               (multi_head', actor_head') =
                 build_actor_head (init actor_head_slot) continuous' action_shape'
                   actor_head_hidden_size actor_head_layer_num a norm_type;
               (enc, aenc, cenc, actor_enc, critic_enc) =
                 (case encs of
                    SharedEncoder e \<Rightarrow> (Some e, None, None, e, e)
                  | SeparateEncoders ae ce \<Rightarrow> (None, Some ae, Some ce, ae, ce))
           in (allocated @ [critic_head_slot, actor_head_slot],
               Inr \<lparr> vac_obs_shape = obs_shape', action_shape = action_shape',
                     share_encoder = share_encoder', encoder = enc,
                     actor_encoder = aenc, critic_encoder = cenc,
                     critic_head = critic_head', continuous = continuous',
                     multi_head = multi_head', actor_head = actor_head',
                     actor = [Enc actor_enc, Hd actor_head'],
                     critic = [Enc critic_enc, Hd critic_head'] \<rparr>)))"

subsection \<open>VAC: the forward modes\<close>

text \<open>
  What a head returns is a dictionary from strings to tensors or lists of tensors. The
  tensors \<open>'t\<close> and the forward passes of the sub-modules are arguments of every method:
  \<open>run_enc e x\<close> is \<open>e(x)\<close> for an encoder, \<open>run_head h x\<close> is \<open>h(x)\<close> for a head, each a
  function of the sub-module (with its parameters) and the input. A method returns the
  object \<open>self\<close> as the call leaves it, the slots of the sub-modules it called, in order,
  and its result.
\<close>

datatype 't pyval = Tensor 't | PyList "'t pyval list"

type_synonym 't pydict = "(string \<times> 't pyval) list"

definition getitem :: "'t pydict \<Rightarrow> string \<Rightarrow> error + 't pyval" where
  "getitem d k = (case map_of d k of None \<Rightarrow> Inl (KeyError k) | Some v \<Rightarrow> Inr v)"

definition compute_actor ::
  "('w encoder \<Rightarrow> 't \<Rightarrow> error + 't) \<Rightarrow> ('w head \<Rightarrow> 't \<Rightarrow> error + 't pydict) \<Rightarrow>
   'w vac \<Rightarrow> 't \<Rightarrow> 'w vac \<times> slot list \<times> (error + 't pydict)" where
  "compute_actor run_enc run_head self x =
     (let (s, field, name) =
            (if share_encoder self then (encoder_slot, encoder self, ''encoder'')
             else (actor_encoder_slot, actor_encoder self, ''actor_encoder''))
      in case field of
           None \<Rightarrow> (self, [], Inl (AttributeError name))
         | Some e \<Rightarrow>
      (case run_enc e x of
         Inl err \<Rightarrow> (self, [s], Inl err)
       | Inr x1 \<Rightarrow>
      (case run_head (actor_head self) x1 of
         Inl err \<Rightarrow> (self, [s, actor_head_slot], Inl err)
       | Inr x2 \<Rightarrow>
           if continuous self then
             (case getitem x2 ''mu'' of
                Inl err \<Rightarrow> (self, [s, actor_head_slot], Inl err)
              | Inr mu \<Rightarrow>
             (case getitem x2 ''sigma'' of
                Inl err \<Rightarrow> (self, [s, actor_head_slot], Inl err)
              | Inr sigma \<Rightarrow>
                  (self, [s, actor_head_slot], Inr [(''logit'', PyList [mu, sigma])])))
           else (self, [s, actor_head_slot], Inr x2))))"

definition compute_critic ::
  "('w encoder \<Rightarrow> 't \<Rightarrow> error + 't) \<Rightarrow> ('w head \<Rightarrow> 't \<Rightarrow> error + 't pydict) \<Rightarrow>
   'w vac \<Rightarrow> 't \<Rightarrow> 'w vac \<times> slot list \<times> (error + 't pydict)" where
  "compute_critic run_enc run_head self x =
     (let (s, field, name) =
            (if share_encoder self then (encoder_slot, encoder self, ''encoder'')
             else (critic_encoder_slot, critic_encoder self, ''critic_encoder''))
      in case field of
           None \<Rightarrow> (self, [], Inl (AttributeError name))
         | Some e \<Rightarrow>
      (case run_enc e x of
         Inl err \<Rightarrow> (self, [s], Inl err)
       | Inr x1 \<Rightarrow>
      (case run_head (critic_head self) x1 of
         Inl err \<Rightarrow> (self, [s, critic_head_slot], Inl err)
       | Inr x2 \<Rightarrow>
      (case getitem x2 ''pred'' of
         Inl err \<Rightarrow> (self, [s, critic_head_slot], Inl err)
       | Inr pred \<Rightarrow> (self, [s, critic_head_slot], Inr [(''value'', pred)])))))"

text \<open>The two embeddings of \<open>compute_actor_critic\<close>: one call of the shared encoder whose
  result both names are bound to, or a call of each separate encoder.\<close>

definition embeddings ::
  "('w encoder \<Rightarrow> 't \<Rightarrow> error + 't) \<Rightarrow> 'w vac \<Rightarrow> 't \<Rightarrow> slot list \<times> (error + 't \<times> 't)" where
  "embeddings run_enc self x =
     (if share_encoder self then
        (case encoder self of
           None \<Rightarrow> ([], Inl (AttributeError ''encoder''))
         | Some e \<Rightarrow>
             (case run_enc e x of
                Inl err \<Rightarrow> ([encoder_slot], Inl err)
              | Inr emb \<Rightarrow> ([encoder_slot], Inr (emb, emb))))
      else
        (case actor_encoder self of
           None \<Rightarrow> ([], Inl (AttributeError ''actor_encoder''))
         | Some ae \<Rightarrow>
        (case run_enc ae x of
           Inl err \<Rightarrow> ([actor_encoder_slot], Inl err)
         | Inr actor_embedding \<Rightarrow>
        (case critic_encoder self of
           None \<Rightarrow> ([actor_encoder_slot], Inl (AttributeError ''critic_encoder''))
         | Some ce \<Rightarrow>
        (case run_enc ce x of
           Inl err \<Rightarrow> ([actor_encoder_slot, critic_encoder_slot], Inl err)
         | Inr critic_embedding \<Rightarrow>
             ([actor_encoder_slot, critic_encoder_slot],
              Inr (actor_embedding, critic_embedding)))))))"

definition compute_actor_critic ::
  "('w encoder \<Rightarrow> 't \<Rightarrow> error + 't) \<Rightarrow> ('w head \<Rightarrow> 't \<Rightarrow> error + 't pydict) \<Rightarrow>
   'w vac \<Rightarrow> 't \<Rightarrow> 'w vac \<times> slot list \<times> (error + 't pydict)" where
  "compute_actor_critic run_enc run_head self x =
     (case embeddings run_enc self x of
        (cs, Inl err) \<Rightarrow> (self, cs, Inl err)
      | (cs, Inr (actor_embedding, critic_embedding)) \<Rightarrow>
     (case run_head (critic_head self) critic_embedding of
        Inl err \<Rightarrow> (self, cs @ [critic_head_slot], Inl err)
      | Inr val \<Rightarrow>
     (case run_head (actor_head self) actor_embedding of
        Inl err \<Rightarrow> (self, cs @ [critic_head_slot, actor_head_slot], Inl err)
      | Inr actor_output \<Rightarrow>
     (case (if continuous self then
              (case getitem actor_output ''mu'' of
                 Inl err \<Rightarrow> Inl err
               | Inr mu \<Rightarrow>
                   (case getitem actor_output ''sigma'' of
                      Inl err \<Rightarrow> Inl err
                    | Inr sigma \<Rightarrow> Inr (PyList [mu, sigma])))
            else getitem actor_output ''logit'') of
        Inl err \<Rightarrow> (self, cs @ [critic_head_slot, actor_head_slot], Inl err)
      | Inr logit \<Rightarrow>
     (case getitem val ''pred'' of
        Inl err \<Rightarrow> (self, cs @ [critic_head_slot, actor_head_slot], Inl err)
      | Inr pred \<Rightarrow>
          (self, cs @ [critic_head_slot, actor_head_slot],
           Inr [(''logit'', logit), (''value'', pred)]))))))"

text \<open>The class attribute \<open>mode\<close>, and \<open>str\<close> of a list of strings as it appears in the
  assertion message: each element in single quotes (the mode names hold no character that
  \<open>repr\<close> would escape), separated by a comma and a space, in square brackets.\<close>

definition VAC_mode :: "string list" where
  "VAC_mode = [''compute_actor'', ''compute_critic'', ''compute_actor_critic'']"

definition repr_str :: "string \<Rightarrow> string" where
  "repr_str s = [CHR 0x27] @ s @ [CHR 0x27]"

fun join :: "string \<Rightarrow> string list \<Rightarrow> string" where
  "join sep [] = []"
| "join sep [s] = s"
| "join sep (s # t # ss) = s @ sep @ join sep (t # ss)"

definition str_list :: "string list \<Rightarrow> string" where
  "str_list xs = ''['' @ join '', '' (map repr_str xs) @ '']''"

text \<open>\<open>getattr(self, mode)\<close> at the three names that pass the assertion of \<open>forward\<close>; any
  other name is not looked up there.\<close>

definition getattr_mode ::
  "('w encoder \<Rightarrow> 't \<Rightarrow> error + 't) \<Rightarrow> ('w head \<Rightarrow> 't \<Rightarrow> error + 't pydict) \<Rightarrow> string \<Rightarrow>
   ('w vac \<Rightarrow> 't \<Rightarrow> 'w vac \<times> slot list \<times> (error + 't pydict)) option" where
  "getattr_mode run_enc run_head name =
     (if name = ''compute_actor'' then Some (compute_actor run_enc run_head)
      else if name = ''compute_critic'' then Some (compute_critic run_enc run_head)
      else if name = ''compute_actor_critic'' then Some (compute_actor_critic run_enc run_head)
      else None)"

definition forward ::
  "('w encoder \<Rightarrow> 't \<Rightarrow> error + 't) \<Rightarrow> ('w head \<Rightarrow> 't \<Rightarrow> error + 't pydict) \<Rightarrow>
   'w vac \<Rightarrow> 't \<Rightarrow> string \<Rightarrow> 'w vac \<times> slot list \<times> (error + 't pydict)" where
  "forward run_enc run_head self inputs mode' =
     (if \<not> List.member VAC_mode mode' then
        (self, [],
         Inl (AssertionError
                (''not support forward mode: '' @ mode' @ ''/'' @ str_list VAC_mode)))
      else
        (case getattr_mode run_enc run_head mode' of
           None \<Rightarrow> (self, [], Inl (AttributeError mode'))
         | Some method \<Rightarrow> method self inputs))"

subsection \<open>The sub-modules on tensor shapes\<close>

text \<open>Modelled from the spec: \<open>FCEncoder\<close>, imported from ding.model.common and not defined
  in this module. The spec's encoder "maps a raw observation tensor to a fixed-size
  embedding", a "fixed-length vector per observation", the fully-connected variant for flat
  observations of shape \<open>(C,)\<close>; the width of the embedding is taken to be the last
  configured hidden size, as the spec says of the convolutional variant. \<open>ConvEncoder\<close> is
  the class above.\<close>

definition obs_width :: "shape \<Rightarrow> nat option" where
  "obs_width s = (case s of SInt n \<Rightarrow> Some n | SSeq xs \<Rightarrow> (case xs of [n] \<Rightarrow> Some n | _ \<Rightarrow> None))"

fun encoder_shape :: "'w encoder \<Rightarrow> nat list \<Rightarrow> error + nat list" where
  "encoder_shape (FCEncoder w obs hsl a norm_type) x =
     (case obs_width obs of
        None \<Rightarrow> Inl FrameworkError
      | Some d \<Rightarrow>
          if hsl \<noteq> [] \<and> x \<noteq> [] \<and> last x = d then Inr (butlast x @ [last hsl])
          else Inl FrameworkError)"
| "encoder_shape (ConvEncoder w ce) x = snd (ConvEncoder_forward ce x)"

text \<open>Modelled from the spec: the head classes \<open>RegressionHead\<close>,
  \<open>ReparameterizationHead\<close>, \<open>DiscreteHead\<close> and \<open>MultiHead\<close>, imported from
  ding.model.common and not defined in this module. Each takes an embedding whose last
  dimension is its hidden size. The critic head is "a single-output regression head" giving
  a "scalar per batch element" under \<open>pred\<close>; the continuous actor head gives "a (mean,
  std) pair" under \<open>mu\<close> and \<open>sigma\<close>, the discrete one "categorical logits" under
  \<open>logit\<close>, each of the width of the action space; the multi-head gives one logit tensor
  per action sub-dimension, "each with its own head".\<close>

fun head_shape :: "'w head \<Rightarrow> nat list \<Rightarrow> error + (nat list) pydict" where
  "head_shape (RegressionHead w hidden out layer_num a norm_type) x =
     (if x \<noteq> [] \<and> last x = hidden
      then Inr [(''pred'', Tensor (if out = 1 then butlast x else butlast x @ [out]))]
      else Inl FrameworkError)"
| "head_shape (ReparameterizationHead w hidden ashape layer_num sigma_type a norm_type) x =
     (case ashape of
        SInt n \<Rightarrow>
          if x \<noteq> [] \<and> last x = hidden
          then Inr [(''mu'', Tensor (butlast x @ [n])), (''sigma'', Tensor (butlast x @ [n]))]
          else Inl FrameworkError
      | SSeq ns \<Rightarrow> Inl FrameworkError)"
| "head_shape (DiscreteHead w hidden ashape layer_num a norm_type) x =
     (case ashape of
        SInt n \<Rightarrow>
          if x \<noteq> [] \<and> last x = hidden
          then Inr [(''logit'', Tensor (butlast x @ [n]))]
          else Inl FrameworkError
      | SSeq ns \<Rightarrow> Inl FrameworkError)"
| "head_shape (MultiHead w cls hidden ashape layer_num a norm_type) x =
     (case ashape of
        SInt n \<Rightarrow> Inl FrameworkError
      | SSeq ns \<Rightarrow>
          if x \<noteq> [] \<and> last x = hidden
          then Inr [(''logit'', PyList (map (\<lambda>n. Tensor (butlast x @ [n])) ns))]
          else Inl FrameworkError)"

text \<open>The encoder a mode runs on the actor's side and on the critic's side.\<close>

definition actor_side :: "'w vac \<Rightarrow> slot \<times> 'w encoder option" where
  "actor_side self =
     (if share_encoder self then (encoder_slot, encoder self)
      else (actor_encoder_slot, actor_encoder self))"

definition critic_side :: "'w vac \<Rightarrow> slot \<times> 'w encoder option" where
  "critic_side self =
     (if share_encoder self then (encoder_slot, encoder self)
      else (critic_encoder_slot, critic_encoder self))"

text \<open>The dimensions of one observation of a given (squeezed) observation shape; a batch of
  \<open>B\<close> observations has shape \<open>B # obs_dims s\<close>.\<close>

definition obs_dims :: "shape \<Rightarrow> nat list" where
  "obs_dims s = (case s of SInt n \<Rightarrow> [n] | SSeq xs \<Rightarrow> xs)"

text \<open>\<open>VAC(obs_shape, action_shape)\<close> with the default values of the other arguments of
  \<open>__init__\<close>.\<close>

definition VAC_default ::
  "(shape \<Rightarrow> shape) \<Rightarrow> (slot \<Rightarrow> 'w) \<Rightarrow> shape \<Rightarrow> shape \<Rightarrow> slot list \<times> (error + 'w vac)" where
  "VAC_default squeeze init obs_shape0 action_shape0 =
     VAC_init squeeze init obs_shape0 action_shape0 True False [128, 128, 64] 64 2 64 1
       (Some ReLU) None"

text \<open>The model of the docstring examples, \<open>VAC(64, 64)\<close>, as \<open>__init__\<close> builds it when
  \<open>squeeze\<close> returns an integer unchanged; the parameters of the sub-modules are left out
  (\<open>unit\<close>).\<close>

definition VAC_64_64 :: "unit vac" where
  "VAC_64_64 =
     \<lparr> vac_obs_shape = SInt 64, action_shape = SInt 64, share_encoder = True,
       encoder = Some (FCEncoder () (SInt 64) [128, 128, 64] (Some ReLU) None),
       actor_encoder = None, critic_encoder = None,
       critic_head = RegressionHead () 64 1 1 (Some ReLU) None,
       continuous = False, multi_head = False,
       actor_head = DiscreteHead () 64 (SInt 64) 2 (Some ReLU) None,
       actor = [Enc (FCEncoder () (SInt 64) [128, 128, 64] (Some ReLU) None),
                Hd (DiscreteHead () 64 (SInt 64) 2 (Some ReLU) None)],
       critic = [Enc (FCEncoder () (SInt 64) [128, 128, 64] (Some ReLU) None),
                 Hd (RegressionHead () 64 1 1 (Some ReLU) None)] \<rparr>"

subsection \<open>The forward modes on objects that a pass may change\<close>

text \<open>
  A forward pass of a sub-module is a call on an object, and a call may change the object
  it is made on. In this second reading of the three modes and of \<open>forward\<close> the pass of an
  encoder or of a head returns the object as the call leaves it, with the result, and the
  mode carries on with the changed object. The definitions above are the case of passes
  that change nothing.
\<close>

type_synonym ('m, 't, 'r) pass = "'m \<Rightarrow> 't \<Rightarrow> 'm \<times> (error + 'r)"

text \<open>A change of a sub-module object is seen through every attribute that refers to it.
  \<open>__init__\<close> ends with \<open>self.actor = [self.encoder, self.actor_head]\<close> and
  \<open>self.critic = [self.encoder, self.critic_head]\<close> for a shared encoder, and with
  \<open>[self.actor_encoder, self.actor_head]\<close> and \<open>[self.critic_encoder, self.critic_head]\<close>
  otherwise, the same objects wrapped in \<open>nn.ModuleList\<close>.\<close>

definition store_encoder :: "slot \<Rightarrow> 'w encoder \<Rightarrow> 'w vac \<Rightarrow> 'w vac" where
  "store_encoder s e self =
     (case s of
        encoder_slot \<Rightarrow>
          self\<lparr> encoder := Some e, actor := (actor self)[0 := Enc e],
                critic := (critic self)[0 := Enc e] \<rparr>
      | actor_encoder_slot \<Rightarrow>
          self\<lparr> actor_encoder := Some e, actor := (actor self)[0 := Enc e] \<rparr>
      | critic_encoder_slot \<Rightarrow>
          self\<lparr> critic_encoder := Some e, critic := (critic self)[0 := Enc e] \<rparr>
      | _ \<Rightarrow> self)"

definition store_head :: "slot \<Rightarrow> 'w head \<Rightarrow> 'w vac \<Rightarrow> 'w vac" where
  "store_head s h self =
     (case s of
        actor_head_slot \<Rightarrow> self\<lparr> actor_head := h, actor := (actor self)[1 := Hd h] \<rparr>
      | critic_head_slot \<Rightarrow> self\<lparr> critic_head := h, critic := (critic self)[1 := Hd h] \<rparr>
      | _ \<Rightarrow> self)"


text \<open>The configuration fields of a model.\<close>

definition config :: "'w vac \<Rightarrow> shape \<times> shape \<times> bool \<times> bool \<times> bool" where
  "config self =
     (vac_obs_shape self, action_shape self, share_encoder self, continuous self,
      multi_head self)"

definition compute_actor_st ::
  "('w encoder, 't, 't) pass \<Rightarrow> ('w head, 't, 't pydict) pass \<Rightarrow>
   'w vac \<Rightarrow> 't \<Rightarrow> 'w vac \<times> slot list \<times> (error + 't pydict)" where
  "compute_actor_st enc_pass head_pass self x =
     (let (s, field, name) =
            (if share_encoder self then (encoder_slot, encoder self, ''encoder'')
             else (actor_encoder_slot, actor_encoder self, ''actor_encoder''))
      in case field of
           None \<Rightarrow> (self, [], Inl (AttributeError name))
         | Some e \<Rightarrow>
      (case enc_pass e x of (e', r) \<Rightarrow>
         let self1 = store_encoder s e' self in
      (case r of
         Inl err \<Rightarrow> (self1, [s], Inl err)
       | Inr x1 \<Rightarrow>
      (case head_pass (actor_head self1) x1 of (h', r') \<Rightarrow>
         let self2 = store_head actor_head_slot h' self1 in
      (case r' of
         Inl err \<Rightarrow> (self2, [s, actor_head_slot], Inl err)
       | Inr x2 \<Rightarrow>
           if continuous self2 then
             (case getitem x2 ''mu'' of
                Inl err \<Rightarrow> (self2, [s, actor_head_slot], Inl err)
              | Inr mu \<Rightarrow>
             (case getitem x2 ''sigma'' of
                Inl err \<Rightarrow> (self2, [s, actor_head_slot], Inl err)
              | Inr sigma \<Rightarrow>
                  (self2, [s, actor_head_slot], Inr [(''logit'', PyList [mu, sigma])])))
           else (self2, [s, actor_head_slot], Inr x2))))))"







text \<open>\<open>ConvEncoder.forward\<close> in the same reading: \<open>self.main\<close> and \<open>self.mid\<close> are objects of
  the framework, whose passes are arguments, as is \<open>x.float()\<close>.\<close>

definition ConvEncoder_forward_st ::
  "('t \<Rightarrow> 't) \<Rightarrow> (layer list, 't, 't) pass \<Rightarrow> (linear, 't, 't) pass \<Rightarrow>
   conv_encoder \<Rightarrow> 't \<Rightarrow> conv_encoder \<times> (error + 't)" where
  "ConvEncoder_forward_st to_float main_pass mid_pass self x =
     (let x = to_float x in
      case main_pass (main self) x of (main', r) \<Rightarrow>
        let self1 = self\<lparr> main := main' \<rparr> in
      (case r of
         Inl e \<Rightarrow> (self1, Inl e)
       | Inr y \<Rightarrow>
      (case mid_pass (mid self1) y of (mid', r') \<Rightarrow> (self1\<lparr> mid := mid' \<rparr>, r'))))"


section \<open>Properties of ConvEncoder\<close>

subsection \<open>The constructor in closed form\<close>

text \<open>The first loop appends three convolution and activation pairs, or fails on a
  hidden size list of fewer than three entries; the second loop, on the field
  \<open>[4, 4, 4]\<close>, appends nothing.\<close>

lemma conv_loop_three:
  "conv_loop [0..<length [1::nat,1,1]] hsl [1,1,1] [1,1,1] a [] c =
    (if 3 \<le> length hsl
     then Inr ([Conv2d c (hsl ! 0) 1 1, ActLayer a, Conv2d (hsl ! 0) (hsl ! 1) 1 1, ActLayer a,
                Conv2d (hsl ! 1) (hsl ! 2) 1 1, ActLayer a], hsl ! 2)
     else Inl IndexError)"
  by (simp add: upt_rec numeral_nat)

lemma res_loop_444: "res_loop [4, 4, 4] a norm_type = []"
  by (simp add: res_loop_def)

lemma main_stack_forward:
  "sequential_forward
     [Conv2d c h0 1 1, ActLayer a, Conv2d h0 h1 1 1, ActLayer a, Conv2d h1 h2 1 1, ActLayer a, Flatten] x =
   (case x of
      [n, c', h, w] \<Rightarrow>
        if c' = c \<and> 0 < h \<and> 0 < w
        then (case a of None \<Rightarrow> Inl TypeError | Some _ \<Rightarrow> Inr [n, h2 * h * w])
        else Inl FrameworkError
    | _ \<Rightarrow> Inl FrameworkError)"
  by (cases a) (auto split: list.splits simp: Suc_le_eq)

lemma ConvEncoder_init_eq:
  "ConvEncoder_init obs hsl a norm_type =
     (case obs of
        [] \<Rightarrow> Inl IndexError
      | c # rest \<Rightarrow>
          if \<not> 3 \<le> length hsl then Inl IndexError
          else if \<not> length (remdups (drop 3 (take (length hsl - 1) hsl))) \<le> 1
          then Inl (AssertionError ''Please indicate the same hidden size for res block parts'')
          else (case rest of
                  [h, w] \<Rightarrow>
                    if 0 < h \<and> 0 < w
                    then (case a of
                            None \<Rightarrow> Inl TypeError
                          | Some _ \<Rightarrow>
                              Inr \<lparr> obs_shape = obs, act = a, hidden_size_list = [4, 4, 4],
                                    main = [Conv2d c (hsl ! 0) 1 1, ActLayer a,
                                            Conv2d (hsl ! 0) (hsl ! 1) 1 1, ActLayer a,
                                            Conv2d (hsl ! 1) (hsl ! 2) 1 1, ActLayer a, Flatten],
                                    mid = Linear (hsl ! 2 * h * w) (last hsl) \<rparr>)
                    else Inl FrameworkError
                | _ \<Rightarrow> Inl FrameworkError))"
  unfolding ConvEncoder_init_def Let_def
  apply (simp only: conv_loop_three res_loop_444)
  apply (cases obs)
   apply simp
  apply (simp add: get_flatten_size_def main_stack_forward del: sequential_forward.simps split: list.splits option.splits)
  apply auto
  done

text \<open>A hidden size list of more than three entries whose entries from the fourth to the
  last but one are not all equal fails the assertion of the constructor.\<close>

lemma ConvEncoder_init_assertion:
  assumes "obs \<noteq> []" and "3 < length hsl"
    and "\<not> length (remdups (drop 3 (take (length hsl - 1) hsl))) \<le> 1"
  shows "ConvEncoder_init obs hsl a norm_type =
           Inl (AssertionError ''Please indicate the same hidden size for res block parts'')"
  using assms by (cases obs) (simp_all add: ConvEncoder_init_eq)

subsection \<open>Claims\<close>

text \<open>
  C1. The spec promises, for a hidden size list of more than three entries, one residual
  block per hidden size beyond the third and before the last, after the three convolution
  layers. On \<open>hidden_size_list = [32, 64, 64, 64, 128]\<close> and an observation of shape
  \<open>(3, 5, 5)\<close> that is one \<open>ResBlock\<close> of width 64 before the flatten. The constructor
  builds the three convolution and activation pairs and the flatten, and no residual block.
\<close>

theorem ConvEncoder_five_sizes_no_ResBlock:
  "ConvEncoder_init [3, 5, 5] [32, 64, 64, 64, 128] (Some ReLU) None =
     Inr \<lparr> obs_shape = [3, 5, 5], act = Some ReLU, hidden_size_list = [4, 4, 4],
           main = [Conv2d 3 32 1 1, ActLayer (Some ReLU), Conv2d 32 64 1 1, ActLayer (Some ReLU),
                   Conv2d 64 64 1 1, ActLayer (Some ReLU), Flatten],
           mid = Linear 1600 128 \<rparr>"
  by (simp add: ConvEncoder_init_eq)

text \<open>
  C7. Whenever the constructor succeeds, the main stack is exactly three convolutions of
  kernel size 1 and stride 1, each followed by the activation, then a flatten; the final
  linear layer maps the flatten size to the last hidden size configured by the caller. The
  flatten size is the one the dummy pass of the constructor computes on an observation of
  the configured shape; a forward call leaves the encoder as it is and applies the stored
  linear layer, so that a batch of images of another height or width, whose flattened size
  differs, is refused rather than given a new flatten size.
\<close>

theorem ConvEncoder_stack_and_flatten_size:
  assumes "ConvEncoder_init obs hsl a norm_type = Inr enc"
  shows "\<exists>c h w.
           obs = [c, h, w] \<and>
           main enc = [Conv2d c (hsl ! 0) 1 1, ActLayer a,
                       Conv2d (hsl ! 0) (hsl ! 1) 1 1, ActLayer a,
                       Conv2d (hsl ! 1) (hsl ! 2) 1 1, ActLayer a, Flatten] \<and>
           get_flatten_size obs (main enc) = Inr (hsl ! 2 * h * w) \<and>
           mid enc = Linear (hsl ! 2 * h * w) (last hsl) \<and>
           (\<forall>x. fst (ConvEncoder_forward enc x) = enc) \<and>
           (\<forall>n h' w'. snd (ConvEncoder_forward enc [n, c, h', w']) =
              (if 0 < h' \<and> 0 < w' \<and> hsl ! 2 * h' * w' = hsl ! 2 * h * w
               then Inr [n, last hsl] else Inl FrameworkError))"
proof -
  from assms obtain c h w b where obs: "obs = [c, h, w]" and pos: "0 < h" "0 < w"
    and a: "a = Some b"
    and enc: "enc = \<lparr> obs_shape = obs, act = a, hidden_size_list = [4, 4, 4],
                      main = [Conv2d c (hsl ! 0) 1 1, ActLayer a,
                              Conv2d (hsl ! 0) (hsl ! 1) 1 1, ActLayer a,
                              Conv2d (hsl ! 1) (hsl ! 2) 1 1, ActLayer a, Flatten],
                      mid = Linear (hsl ! 2 * h * w) (last hsl) \<rparr>"
    by (auto simp: ConvEncoder_init_eq split: list.splits if_splits option.splits)
  have m: "main enc = [Conv2d c (hsl ! 0) 1 1, ActLayer a,
                       Conv2d (hsl ! 0) (hsl ! 1) 1 1, ActLayer a,
                       Conv2d (hsl ! 1) (hsl ! 2) 1 1, ActLayer a, Flatten]"
    and d: "mid enc = Linear (hsl ! 2 * h * w) (last hsl)"
    by (simp_all add: enc)
  have sf: "sequential_forward (main enc) [n, c, h', w'] =
              (if 0 < h' \<and> 0 < w' then Inr [n, hsl ! 2 * h' * w'] else Inl FrameworkError)"
    for n h' w'
    by (simp only: m main_stack_forward) (simp add: a)
  have fl: "get_flatten_size obs (main enc) = Inr (hsl ! 2 * h * w)"
    unfolding get_flatten_size_def Let_def obs sf using pos by simp
  have fw: "snd (ConvEncoder_forward enc [n, c, h', w']) =
              (if 0 < h' \<and> 0 < w' \<and> hsl ! 2 * h' * w' = hsl ! 2 * h * w
               then Inr [n, last hsl] else Inl FrameworkError)" for n h' w'
    unfolding ConvEncoder_forward_def sf d by simp
  show ?thesis
    using obs m d fl fw by (simp add: ConvEncoder_forward_def)
qed


text \<open>The theorem at an encoder for observations of shape \<open>(2, 3, 3)\<close>: the flatten size
  is 36; a batch of seven such observations is embedded, a batch of \<open>4 \<times> 4\<close> images is
  refused.\<close>

theorem ConvEncoder_stack_and_flatten_size_witness:
  "ConvEncoder_init [2, 3, 3] [8, 16, 4, 32] (Some ReLU) None =
     Inr \<lparr> obs_shape = [2, 3, 3], act = Some ReLU, hidden_size_list = [4, 4, 4],
           main = [Conv2d 2 8 1 1, ActLayer (Some ReLU), Conv2d 8 16 1 1, ActLayer (Some ReLU),
                   Conv2d 16 4 1 1, ActLayer (Some ReLU), Flatten],
           mid = Linear 36 32 \<rparr> \<and>
   snd (ConvEncoder_forward
          \<lparr> obs_shape = [2, 3, 3], act = Some ReLU, hidden_size_list = [4, 4, 4],
            main = [Conv2d 2 8 1 1, ActLayer (Some ReLU), Conv2d 8 16 1 1, ActLayer (Some ReLU),
                    Conv2d 16 4 1 1, ActLayer (Some ReLU), Flatten],
            mid = Linear 36 32 \<rparr> [7, 2, 3, 3]) = Inr [7, 32] \<and>
   snd (ConvEncoder_forward
          \<lparr> obs_shape = [2, 3, 3], act = Some ReLU, hidden_size_list = [4, 4, 4],
            main = [Conv2d 2 8 1 1, ActLayer (Some ReLU), Conv2d 8 16 1 1, ActLayer (Some ReLU),
                    Conv2d 16 4 1 1, ActLayer (Some ReLU), Flatten],
            mid = Linear 36 32 \<rparr> [7, 2, 4, 4]) = Inl FrameworkError"
proof -
  have c: "ConvEncoder_init [2, 3, 3] [8, 16, 4, 32] (Some ReLU) None =
     Inr \<lparr> obs_shape = [2, 3, 3], act = Some ReLU, hidden_size_list = [4, 4, 4],
           main = [Conv2d 2 8 1 1, ActLayer (Some ReLU), Conv2d 8 16 1 1, ActLayer (Some ReLU),
                   Conv2d 16 4 1 1, ActLayer (Some ReLU), Flatten],
           mid = Linear 36 32 \<rparr>"
    by (simp add: ConvEncoder_init_eq)
  show ?thesis
    using ConvEncoder_stack_and_flatten_size [OF c] c by simp
qed

text \<open>
  C10. Whenever the constructor succeeds, whatever hidden size list the caller gave, the
  field \<open>hidden_size_list\<close> is \<open>[4, 4, 4]\<close>, the range of the residual-block loop is
  empty, and the main stack is the three convolution and activation pairs followed by the
  flatten, with no residual block in it.
\<close>

theorem ConvEncoder_never_builds_ResBlock:
  assumes "ConvEncoder_init obs hsl a norm_type = Inr enc"
  shows "hidden_size_list enc = [4, 4, 4] \<and>
         [3 ..< length (hidden_size_list enc) - 1] = [] \<and>
         res_loop (hidden_size_list enc) a norm_type = [] \<and>
         (\<exists>c rest. obs = c # rest \<and>
            main enc = [Conv2d c (hsl ! 0) 1 1, ActLayer a,
                        Conv2d (hsl ! 0) (hsl ! 1) 1 1, ActLayer a,
                        Conv2d (hsl ! 1) (hsl ! 2) 1 1, ActLayer a] @ [Flatten]) \<and>
         (\<forall>l \<in> set (main enc). \<forall>c b n. l \<noteq> ResBlock c b n)"
  using assms
  by (auto simp: ConvEncoder_init_eq res_loop_def split: list.splits if_splits option.splits)


text \<open>The theorem at a hidden size list of six entries.\<close>

theorem ConvEncoder_never_builds_ResBlock_witness:
  "ConvEncoder_init [2, 3, 3] [4, 4, 4, 6, 6, 8] (Some ReLU) None =
     Inr \<lparr> obs_shape = [2, 3, 3], act = Some ReLU, hidden_size_list = [4, 4, 4],
           main = [Conv2d 2 4 1 1, ActLayer (Some ReLU), Conv2d 4 4 1 1, ActLayer (Some ReLU),
                   Conv2d 4 4 1 1, ActLayer (Some ReLU), Flatten],
           mid = Linear 36 8 \<rparr> \<and>
   ResBlock 6 (Some ReLU) None \<notin>
     set [Conv2d 2 4 1 1, ActLayer (Some ReLU), Conv2d 4 4 1 1, ActLayer (Some ReLU),
          Conv2d 4 4 1 1, ActLayer (Some ReLU), Flatten]"
proof -
  have c: "ConvEncoder_init [2, 3, 3] [4, 4, 4, 6, 6, 8] (Some ReLU) None =
     Inr \<lparr> obs_shape = [2, 3, 3], act = Some ReLU, hidden_size_list = [4, 4, 4],
           main = [Conv2d 2 4 1 1, ActLayer (Some ReLU), Conv2d 4 4 1 1, ActLayer (Some ReLU),
                   Conv2d 4 4 1 1, ActLayer (Some ReLU), Flatten],
           mid = Linear 36 8 \<rparr>"
    by (simp add: ConvEncoder_init_eq)
  show ?thesis
    using ConvEncoder_never_builds_ResBlock [OF c] c by simp
qed

section \<open>Properties of VAC\<close>

subsection \<open>Auxiliary facts\<close>

text \<open>The allowed modes and their rendering in the assertion message.\<close>

lemma str_list_VAC_mode:
  "str_list VAC_mode = ''['compute_actor', 'compute_critic', 'compute_actor_critic']''"
  by (simp add: str_list_def VAC_mode_def repr_str_def)

lemma member_VAC_mode:
  "List.member VAC_mode m \<longleftrightarrow>
     m = ''compute_actor'' \<or> m = ''compute_critic'' \<or> m = ''compute_actor_critic''"
  by (auto simp: VAC_mode_def)





text \<open>What a successful call of \<open>__init__\<close> has built.\<close>

lemma VAC_init_Inr:
  assumes "VAC_init squeeze init obs0 act0 sh co hsl ahs aln chs cln a nt = (slots, Inr self)"
  shows "share_encoder self = sh \<and> continuous self = co \<and>
         vac_obs_shape self = squeeze obs0 \<and> action_shape self = squeeze act0 \<and>
         critic_head self = RegressionHead (init critic_head_slot) chs 1 cln a nt \<and>
         (multi_head self, actor_head self) =
           build_actor_head (init actor_head_slot) co (squeeze act0) ahs aln a nt \<and>
         (\<exists>cls. select_encoder_cls (squeeze obs0) = Inr cls \<and>
            (if sh then
               slots = [encoder_slot, critic_head_slot, actor_head_slot] \<and>
               (\<exists>e. construct_encoder cls (init encoder_slot) (squeeze obs0) hsl a nt = Inr e \<and>
                    encoder self = Some e \<and> actor_encoder self = None \<and>
                    critic_encoder self = None)
             else
               slots = [actor_encoder_slot, critic_encoder_slot, critic_head_slot, actor_head_slot] \<and>
               (\<exists>ae ce.
                    construct_encoder cls (init actor_encoder_slot) (squeeze obs0) hsl a nt = Inr ae \<and>
                    construct_encoder cls (init critic_encoder_slot) (squeeze obs0) hsl a nt = Inr ce \<and>
                    encoder self = None \<and> actor_encoder self = Some ae \<and>
                    critic_encoder self = Some ce)))"
  using assms
  unfolding VAC_init_def build_encoders_def Let_def
  by (auto split: sum.splits prod.splits if_splits)


lemma construct_FCEncoder:
  "construct_encoder FCEncoder_cls w s hsl a nt = Inr (FCEncoder w s hsl a nt)"
  by (simp add: construct_encoder_def)

lemma construct_ConvEncoder:
  "construct_encoder ConvEncoder_cls w (SSeq xs) hsl a nt =
     (case ConvEncoder_init xs hsl a nt of Inl e \<Rightarrow> Inl e | Inr ce \<Rightarrow> Inr (ConvEncoder w ce))"
  by (simp add: construct_encoder_def)

text \<open>A successful \<open>compute_actor_critic\<close> on a shared encoder, step by step.\<close>

lemma compute_actor_critic_shared_Inr:
  assumes "share_encoder self"
    and "compute_actor_critic run_enc run_head self x = (self', cs, Inr out)"
  obtains e emb val actor_output logit pred where
    "encoder self = Some e" and "run_enc e x = Inr emb"
    and "run_head (critic_head self) emb = Inr val"
    and "run_head (actor_head self) emb = Inr actor_output"
    and "getitem val ''pred'' = Inr pred"
    and "if continuous self
         then \<exists>mu sigma. getitem actor_output ''mu'' = Inr mu \<and>
                getitem actor_output ''sigma'' = Inr sigma \<and> logit = PyList [mu, sigma]
         else getitem actor_output ''logit'' = Inr logit"
    and "out = [(''logit'', logit), (''value'', pred)]"
    and "cs = [encoder_slot, critic_head_slot, actor_head_slot]"
    and "self' = self"
proof -
  from assms obtain e where e: "encoder self = Some e"
    by (cases "encoder self") (auto simp: compute_actor_critic_def embeddings_def)
  from assms e obtain emb where emb: "run_enc e x = Inr emb"
    by (cases "run_enc e x") (auto simp: compute_actor_critic_def embeddings_def)
  from assms e emb obtain val where val: "run_head (critic_head self) emb = Inr val"
    by (cases "run_head (critic_head self) emb")
       (auto simp: compute_actor_critic_def embeddings_def)
  from assms e emb val obtain ao where ao: "run_head (actor_head self) emb = Inr ao"
    by (cases "run_head (actor_head self) emb")
       (auto simp: compute_actor_critic_def embeddings_def)
  define L where "L =
     (if continuous self then
        (case getitem ao ''mu'' of
           Inl err \<Rightarrow> Inl err
         | Inr mu \<Rightarrow>
             (case getitem ao ''sigma'' of
                Inl err \<Rightarrow> Inl err
              | Inr sigma \<Rightarrow> Inr (PyList [mu, sigma])))
      else getitem ao ''logit'')"
  have "compute_actor_critic run_enc run_head self x =
     (case L of
        Inl err \<Rightarrow> (self, [encoder_slot] @ [critic_head_slot, actor_head_slot], Inl err)
      | Inr logit \<Rightarrow>
     (case getitem val ''pred'' of
        Inl err \<Rightarrow> (self, [encoder_slot] @ [critic_head_slot, actor_head_slot], Inl err)
      | Inr pred \<Rightarrow>
          (self, [encoder_slot] @ [critic_head_slot, actor_head_slot],
           Inr [(''logit'', logit), (''value'', pred)])))"
    using assms(1) e emb val ao
    by (simp add: compute_actor_critic_def embeddings_def L_def)
  with assms(2) obtain logit pred where
    l: "L = Inr logit"
    and p: "getitem val ''pred'' = Inr pred"
    and o: "out = [(''logit'', logit), (''value'', pred)]"
           "cs = [encoder_slot, critic_head_slot, actor_head_slot]" "self' = self"
    by (cases L; cases "getitem val ''pred''") auto
  from l have l': "if continuous self
         then \<exists>mu sigma. getitem ao ''mu'' = Inr mu \<and>
                getitem ao ''sigma'' = Inr sigma \<and> logit = PyList [mu, sigma]
         else getitem ao ''logit'' = Inr logit"
    unfolding L_def by (auto split: if_splits sum.splits)
  show thesis by (rule that [OF e emb val ao p l' o])
qed

text \<open>The model of the docstring examples and its actor-critic pass on a batch of four
  flat observations, on tensor shapes.\<close>

lemma VAC_default_64_64:
  "VAC_default (\<lambda>s. s) (\<lambda>_. ()) (SInt 64) (SInt 64) =
     ([encoder_slot, critic_head_slot, actor_head_slot], Inr VAC_64_64)"
  by (simp add: VAC_default_def VAC_init_def select_encoder_cls_def build_encoders_def
      construct_encoder_def build_actor_head_def VAC_64_64_def Let_def)

lemma VAC_64_64_actor_critic:
  "compute_actor_critic encoder_shape head_shape VAC_64_64 [4, 64] =
     (VAC_64_64, [encoder_slot, critic_head_slot, actor_head_slot],
      Inr [(''logit'', Tensor [4, 64]), (''value'', Tensor [4])])"
  by (simp add: compute_actor_critic_def embeddings_def VAC_64_64_def obs_width_def getitem_def)

subsection \<open>Claims\<close>

text \<open>
  C2. The encoder class follows the squeezed observation shape. An integer or a sequence
  of length one gives \<open>FCEncoder\<close>, and construction succeeds with every encoder an
  \<open>FCEncoder\<close>. A sequence of length three gives \<open>ConvEncoder\<close>: every encoder of the
  model is the \<open>ConvEncoder\<close> its constructor builds, and construction fails only as that
  constructor fails. A sequence of any other length makes \<open>__init__\<close> raise the
  \<open>RuntimeError\<close> on the observation shape, and no constructor of an encoder or a head has
  been called by then.
\<close>

theorem VAC_init_encoder_class:
  "((\<exists>n. squeeze obs0 = SInt n) \<or> (\<exists>d. squeeze obs0 = SSeq [d]) \<longrightarrow>
      select_encoder_cls (squeeze obs0) = Inr FCEncoder_cls \<and>
      (\<exists>self. VAC_init squeeze init obs0 act0 sh co hsl ahs aln chs cln a nt =
                 ((if sh then [encoder_slot] else [actor_encoder_slot, critic_encoder_slot]) @
                  [critic_head_slot, actor_head_slot], Inr self) \<and>
               (encoder self, actor_encoder self, critic_encoder self) =
                 (if sh then (Some (FCEncoder (init encoder_slot) (squeeze obs0) hsl a nt), None, None)
                  else (None,
                        Some (FCEncoder (init actor_encoder_slot) (squeeze obs0) hsl a nt),
                        Some (FCEncoder (init critic_encoder_slot) (squeeze obs0) hsl a nt))))) \<and>
   (\<forall>c h w. squeeze obs0 = SSeq [c, h, w] \<longrightarrow>
      select_encoder_cls (squeeze obs0) = Inr ConvEncoder_cls \<and>
      (case ConvEncoder_init [c, h, w] hsl a nt of
         Inl e \<Rightarrow>
           VAC_init squeeze init obs0 act0 sh co hsl ahs aln chs cln a nt =
             ([if sh then encoder_slot else actor_encoder_slot], Inl e)
       | Inr ce \<Rightarrow>
           (\<exists>self. VAC_init squeeze init obs0 act0 sh co hsl ahs aln chs cln a nt =
                      ((if sh then [encoder_slot] else [actor_encoder_slot, critic_encoder_slot]) @
                       [critic_head_slot, actor_head_slot], Inr self) \<and>
                    (encoder self, actor_encoder self, critic_encoder self) =
                      (if sh then (Some (ConvEncoder (init encoder_slot) ce), None, None)
                       else (None,
                             Some (ConvEncoder (init actor_encoder_slot) ce),
                             Some (ConvEncoder (init critic_encoder_slot) ce)))))) \<and>
   (\<forall>xs. squeeze obs0 = SSeq xs \<longrightarrow> length xs \<noteq> 1 \<longrightarrow> length xs \<noteq> 3 \<longrightarrow>
      select_encoder_cls (squeeze obs0) = Inl (RuntimeError_obs_shape (SSeq xs)) \<and>
      VAC_init squeeze init obs0 act0 sh co hsl ahs aln chs cln a nt =
        ([], Inl (RuntimeError_obs_shape (SSeq xs))))"
proof (intro conjI impI allI)
  assume flat: "(\<exists>n. squeeze obs0 = SInt n) \<or> (\<exists>d. squeeze obs0 = SSeq [d])"
  then show sel: "select_encoder_cls (squeeze obs0) = Inr FCEncoder_cls"
    by (auto simp: select_encoder_cls_def)
  show "\<exists>self. VAC_init squeeze init obs0 act0 sh co hsl ahs aln chs cln a nt =
                 ((if sh then [encoder_slot] else [actor_encoder_slot, critic_encoder_slot]) @
                  [critic_head_slot, actor_head_slot], Inr self) \<and>
               (encoder self, actor_encoder self, critic_encoder self) =
                 (if sh then (Some (FCEncoder (init encoder_slot) (squeeze obs0) hsl a nt), None, None)
                  else (None,
                        Some (FCEncoder (init actor_encoder_slot) (squeeze obs0) hsl a nt),
                        Some (FCEncoder (init critic_encoder_slot) (squeeze obs0) hsl a nt)))"
    unfolding VAC_init_def build_encoders_def Let_def sel
    by (simp add: construct_FCEncoder split: prod.splits)
next
  fix c h w
  assume img: "squeeze obs0 = SSeq [c, h, w]"
  then show sel: "select_encoder_cls (squeeze obs0) = Inr ConvEncoder_cls"
    by (simp add: select_encoder_cls_def)
  show "case ConvEncoder_init [c, h, w] hsl a nt of
         Inl e \<Rightarrow>
           VAC_init squeeze init obs0 act0 sh co hsl ahs aln chs cln a nt =
             ([if sh then encoder_slot else actor_encoder_slot], Inl e)
       | Inr ce \<Rightarrow>
           (\<exists>self. VAC_init squeeze init obs0 act0 sh co hsl ahs aln chs cln a nt =
                      ((if sh then [encoder_slot] else [actor_encoder_slot, critic_encoder_slot]) @
                       [critic_head_slot, actor_head_slot], Inr self) \<and>
                    (encoder self, actor_encoder self, critic_encoder self) =
                      (if sh then (Some (ConvEncoder (init encoder_slot) ce), None, None)
                       else (None,
                             Some (ConvEncoder (init actor_encoder_slot) ce),
                             Some (ConvEncoder (init critic_encoder_slot) ce))))"
    unfolding VAC_init_def build_encoders_def Let_def sel
    by (simp add: img construct_ConvEncoder split: prod.splits sum.splits)
next
  fix xs
  assume "squeeze obs0 = SSeq xs" "length xs \<noteq> 1" "length xs \<noteq> 3"
  then show sel: "select_encoder_cls (squeeze obs0) = Inl (RuntimeError_obs_shape (SSeq xs))"
    by (simp add: select_encoder_cls_def)
  show "VAC_init squeeze init obs0 act0 sh co hsl ahs aln chs cln a nt =
        ([], Inl (RuntimeError_obs_shape (SSeq xs)))"
    unfolding VAC_init_def Let_def sel by simp
qed

text \<open>The theorem at the observation shapes \<open>64\<close>, \<open>(2, 3, 3)\<close> and \<open>(7, 7)\<close>.\<close>

theorem VAC_init_encoder_class_witness:
  "select_encoder_cls (SInt 64) = Inr FCEncoder_cls \<and>
   (\<exists>self. VAC_init (\<lambda>s. s) (\<lambda>_. ()) (SInt 64) (SInt 6) True False [128, 128, 64] 64 2 64 1
              (Some ReLU) None =
              ([encoder_slot, critic_head_slot, actor_head_slot], Inr self) \<and>
            encoder self = Some (FCEncoder () (SInt 64) [128, 128, 64] (Some ReLU) None)) \<and>
   select_encoder_cls (SSeq [2, 3, 3]) = Inr ConvEncoder_cls \<and>
   (\<exists>self ce. VAC_init (\<lambda>s. s) (\<lambda>_. ()) (SSeq [2, 3, 3]) (SInt 6) True False [128, 128, 64] 64 2 64 1
              (Some ReLU) None =
              ([encoder_slot, critic_head_slot, actor_head_slot], Inr self) \<and>
            encoder self = Some (ConvEncoder () ce) \<and>
            ConvEncoder_init [2, 3, 3] [128, 128, 64] (Some ReLU) None = Inr ce) \<and>
   VAC_init (\<lambda>s. s) (\<lambda>_. ()) (SSeq [7, 7]) (SInt 6) True False [128, 128, 64] 64 2 64 1
     (Some ReLU) None = ([], Inl (RuntimeError_obs_shape (SSeq [7, 7])))"
proof -
  note t = VAC_init_encoder_class [where squeeze = "\<lambda>s. s" and init = "\<lambda>_. ()"
      and ?act0.0 = "SInt 6" and sh = True and co = False and hsl = "[128, 128, 64]"
      and ahs = 64 and aln = 2 and chs = 64 and cln = 1 and a = "Some ReLU" and nt = None]
  have c: "ConvEncoder_init [2, 3, 3] [128, 128, 64] (Some ReLU) None =
     Inr \<lparr> obs_shape = [2, 3, 3], act = Some ReLU, hidden_size_list = [4, 4, 4],
           main = [Conv2d 2 128 1 1, ActLayer (Some ReLU), Conv2d 128 128 1 1, ActLayer (Some ReLU),
                   Conv2d 128 64 1 1, ActLayer (Some ReLU), Flatten],
           mid = Linear 576 64 \<rparr>"
    by (simp add: ConvEncoder_init_eq)
  from t [of "SInt 64"] have 1:
    "select_encoder_cls (SInt 64) = Inr FCEncoder_cls \<and>
     (\<exists>self. VAC_init (\<lambda>s. s) (\<lambda>_. ()) (SInt 64) (SInt 6) True False [128, 128, 64] 64 2 64 1
              (Some ReLU) None =
              ([encoder_slot, critic_head_slot, actor_head_slot], Inr self) \<and>
            encoder self = Some (FCEncoder () (SInt 64) [128, 128, 64] (Some ReLU) None))"
    by auto
  from t [of "SSeq [2, 3, 3]"] c have 2:
    "select_encoder_cls (SSeq [2, 3, 3]) = Inr ConvEncoder_cls \<and>
     (\<exists>self ce. VAC_init (\<lambda>s. s) (\<lambda>_. ()) (SSeq [2, 3, 3]) (SInt 6) True False [128, 128, 64] 64 2 64 1
              (Some ReLU) None =
              ([encoder_slot, critic_head_slot, actor_head_slot], Inr self) \<and>
            encoder self = Some (ConvEncoder () ce) \<and>
            ConvEncoder_init [2, 3, 3] [128, 128, 64] (Some ReLU) None = Inr ce)"
    by auto
  from t [of "SSeq [7, 7]"] have 3:
    "VAC_init (\<lambda>s. s) (\<lambda>_. ()) (SSeq [7, 7]) (SInt 6) True False [128, 128, 64] 64 2 64 1
     (Some ReLU) None = ([], Inl (RuntimeError_obs_shape (SSeq [7, 7])))"
    by simp
  from 1 2 3 show ?thesis by blast
qed

text \<open>
  C3. On a model with a shared encoder, whenever \<open>compute_actor_critic\<close> returns a result:
  the shared encoder was called once, before the two heads; both heads were given the
  embedding it returned; the result holds exactly the keys \<open>logit\<close> and \<open>value\<close>; and
  \<open>compute_actor\<close> and \<open>compute_critic\<close> on the same input return, under \<open>logit\<close> and
  \<open>value\<close>, these same values. The tensors and the forward passes of the sub-modules are
  arbitrary, so the equality is one of values.
\<close>

theorem shared_encoder_computed_once:
  assumes "share_encoder self"
    and "compute_actor_critic run_enc run_head self x = (self', cs, Inr out)"
  shows "\<exists>e emb actor_output val logit pred.
           encoder self = Some e \<and> run_enc e x = Inr emb \<and>
           cs = [encoder_slot, critic_head_slot, actor_head_slot] \<and>
           run_head (critic_head self) emb = Inr val \<and>
           run_head (actor_head self) emb = Inr actor_output \<and>
           out = [(''logit'', logit), (''value'', pred)] \<and>
           getitem val ''pred'' = Inr pred \<and>
           (\<exists>oa oc.
              compute_actor run_enc run_head self x =
                (self, [encoder_slot, actor_head_slot], Inr oa) \<and>
              compute_critic run_enc run_head self x =
                (self, [encoder_slot, critic_head_slot], Inr oc) \<and>
              getitem oa ''logit'' = Inr logit \<and> getitem oc ''value'' = Inr pred)"
proof -
  from assms obtain e emb val ao logit pred where
    e: "encoder self = Some e" and emb: "run_enc e x = Inr emb"
    and val: "run_head (critic_head self) emb = Inr val"
    and ao: "run_head (actor_head self) emb = Inr ao"
    and p: "getitem val ''pred'' = Inr pred"
    and l: "if continuous self
         then \<exists>mu sigma. getitem ao ''mu'' = Inr mu \<and>
                getitem ao ''sigma'' = Inr sigma \<and> logit = PyList [mu, sigma]
         else getitem ao ''logit'' = Inr logit"
    and o: "out = [(''logit'', logit), (''value'', pred)]"
           "cs = [encoder_slot, critic_head_slot, actor_head_slot]"
    by (rule compute_actor_critic_shared_Inr)
  have cc: "compute_critic run_enc run_head self x =
              (self, [encoder_slot, critic_head_slot], Inr [(''value'', pred)])"
    using assms(1) e emb val p by (simp add: compute_critic_def)
  have ca: "\<exists>oa. compute_actor run_enc run_head self x =
               (self, [encoder_slot, actor_head_slot], Inr oa) \<and>
             getitem oa ''logit'' = Inr logit"
  proof (cases "continuous self")
    case True
    with l obtain mu sigma where "getitem ao ''mu'' = Inr mu"
      "getitem ao ''sigma'' = Inr sigma" "logit = PyList [mu, sigma]"
      by auto
    with True assms(1) e emb ao show ?thesis
      by (simp add: compute_actor_def getitem_def)
  next
    case False
    with l assms(1) e emb ao show ?thesis
      by (simp add: compute_actor_def)
  qed
  have "getitem [(''value'', pred)] ''value'' = Inr pred"
    by (simp add: getitem_def)
  with e emb val ao p o cc ca show ?thesis by blast
qed

text \<open>The theorem at the model of the docstring examples.\<close>

theorem shared_encoder_computed_once_witness:
  "share_encoder VAC_64_64 \<and>
   compute_actor_critic encoder_shape head_shape VAC_64_64 [4, 64] =
     (VAC_64_64, [encoder_slot, critic_head_slot, actor_head_slot],
      Inr [(''logit'', Tensor [4, 64]), (''value'', Tensor [4])]) \<and>
   (\<exists>oa oc.
      compute_actor encoder_shape head_shape VAC_64_64 [4, 64] =
        (VAC_64_64, [encoder_slot, actor_head_slot], Inr oa) \<and>
      compute_critic encoder_shape head_shape VAC_64_64 [4, 64] =
        (VAC_64_64, [encoder_slot, critic_head_slot], Inr oc) \<and>
      getitem oa ''logit'' = Inr (Tensor [4, 64]) \<and> getitem oc ''value'' = Inr (Tensor [4]))"
proof -
  have s: "share_encoder VAC_64_64" by (simp add: VAC_64_64_def)
  from shared_encoder_computed_once [OF s VAC_64_64_actor_critic]
  show ?thesis using s VAC_64_64_actor_critic by auto
qed

text \<open>
  C5. For a mode that is not one of the three allowed names, \<open>forward\<close> fails the
  assertion; the message holds the offending mode and the list of the allowed modes; no
  sub-module has been called, whatever the sub-modules are.
\<close>

theorem forward_unsupported_mode:
  assumes "mode' \<notin> set VAC_mode"
  shows "forward run_enc run_head self inputs mode' =
           (self, [],
            Inl (AssertionError
                   (''not support forward mode: '' @ mode' @
                    ''/['compute_actor', 'compute_critic', 'compute_actor_critic']'')))"
  using assms by (simp add: forward_def str_list_VAC_mode)

text \<open>The theorem at the mode \<open>compute\<close>.\<close>

theorem forward_unsupported_mode_witness:
  "''compute'' \<notin> set VAC_mode \<and>
   forward encoder_shape head_shape VAC_64_64 [4, 64] ''compute'' =
     (VAC_64_64, [],
      Inl (AssertionError
             ''not support forward mode: compute/['compute_actor', 'compute_critic', 'compute_actor_critic']''))"
proof -
  have h: "''compute'' \<notin> set VAC_mode" by (simp add: VAC_mode_def)
  show ?thesis
    using h forward_unsupported_mode [OF h, of encoder_shape head_shape VAC_64_64 "[4, 64]"]
    by simp
qed

text \<open>
  C8. The allowed modes are the three method names, and \<open>forward\<close> at each of them is the
  call of the method of that name.
\<close>

theorem forward_dispatch:
  "set VAC_mode = {''compute_actor'', ''compute_critic'', ''compute_actor_critic''} \<and>
   forward run_enc run_head self x ''compute_actor'' = compute_actor run_enc run_head self x \<and>
   forward run_enc run_head self x ''compute_critic'' = compute_critic run_enc run_head self x \<and>
   forward run_enc run_head self x ''compute_actor_critic'' =
     compute_actor_critic run_enc run_head self x"
  by (simp add: forward_def getattr_mode_def VAC_mode_def)

section \<open>The modes of a constructed model\<close>

subsection \<open>Auxiliary facts\<close>

text \<open>An encoder that \<open>__init__\<close> has built embeds a batch of observations of the
  configured shape into vectors of the last hidden size.\<close>

lemma ConvEncoder_forward_constructed:
  assumes "ConvEncoder_init [c, h, w] hsl a nt = Inr ce"
  shows "snd (ConvEncoder_forward ce [B, c, h, w]) = Inr [B, last hsl] \<and> hsl \<noteq> []"
proof -
  from assms obtain b where pos: "0 < h" "0 < w" and a: "a = Some b" and len: "3 \<le> length hsl"
    and m: "main ce = [Conv2d c (hsl ! 0) 1 1, ActLayer a,
                       Conv2d (hsl ! 0) (hsl ! 1) 1 1, ActLayer a,
                       Conv2d (hsl ! 1) (hsl ! 2) 1 1, ActLayer a, Flatten]"
    and d: "mid ce = Linear (hsl ! 2 * h * w) (last hsl)"
    by (auto simp: ConvEncoder_init_eq split: if_splits option.splits)
  have "sequential_forward (main ce) [B, c, h, w] = Inr [B, hsl ! 2 * h * w]"
    by (simp only: m main_stack_forward) (simp add: a pos)
  then show ?thesis
    using len unfolding ConvEncoder_forward_def d by auto
qed

lemma encoder_shape_constructed:
  assumes "select_encoder_cls s = Inr cls"
    and "construct_encoder cls w s hsl a nt = Inr e"
  shows "encoder_shape e (B # obs_dims s) =
           (if hsl \<noteq> [] then Inr [B, last hsl] else Inl FrameworkError)"
proof (cases cls)
  case FCEncoder_cls
  with assms(1) have "obs_width s = Some (last (obs_dims s)) \<and> (\<exists>d. obs_dims s = [d])"
    by (auto simp: select_encoder_cls_def obs_width_def obs_dims_def length_Suc_conv
        split: shape.splits if_splits)
  moreover from FCEncoder_cls assms(2) have "e = FCEncoder w s hsl a nt"
    by (simp add: construct_encoder_def)
  ultimately show ?thesis by auto
next
  case ConvEncoder_cls
  with assms(1) obtain c h w' where s: "s = SSeq [c, h, w']"
    by (auto simp: select_encoder_cls_def length_Suc_conv numeral_3_eq_3
        split: shape.splits if_splits)
  with ConvEncoder_cls assms(2) obtain ce where
    ce: "ConvEncoder_init [c, h, w'] hsl a nt = Inr ce" "e = ConvEncoder w ce"
    by (auto simp: construct_encoder_def split: sum.splits)
  from ConvEncoder_forward_constructed [OF ce(1)] show ?thesis
    by (simp add: s ce(2) obs_dims_def)
qed

text \<open>The heads that \<open>__init__\<close> builds, on the shape of an embedding.\<close>

lemma critic_head_shape:
  "head_shape (RegressionHead w chs 1 cln a nt) [B, k] =
     (if k = chs then Inr [(''pred'', Tensor [B])] else Inl FrameworkError)"
  by simp

lemma actor_head_shape:
  "head_shape (snd (build_actor_head w co s ahs aln a nt)) (bs @ [k]) =
     (if k = ahs then
        (case s of
           SInt n \<Rightarrow>
             Inr (if co then [(''mu'', Tensor (bs @ [n])), (''sigma'', Tensor (bs @ [n]))]
                  else [(''logit'', Tensor (bs @ [n]))])
         | SSeq ns \<Rightarrow>
             if co then Inl FrameworkError
             else Inr [(''logit'', PyList (map (\<lambda>n. Tensor (bs @ [n])) ns))])
      else Inl FrameworkError)"
  by (simp add: build_actor_head_def split: shape.splits)

text \<open>\<open>compute_actor\<close> and \<open>compute_critic\<close> in terms of the encoder of their side, and the
  sides of a constructed model.\<close>

lemma compute_actor_via_side:
  assumes "actor_side self = (s, Some e)"
  shows "compute_actor run_enc run_head self x =
     (case run_enc e x of
        Inl err \<Rightarrow> (self, [s], Inl err)
      | Inr x1 \<Rightarrow>
      (case run_head (actor_head self) x1 of
         Inl err \<Rightarrow> (self, [s, actor_head_slot], Inl err)
       | Inr x2 \<Rightarrow>
           if continuous self then
             (case getitem x2 ''mu'' of
                Inl err \<Rightarrow> (self, [s, actor_head_slot], Inl err)
              | Inr mu \<Rightarrow>
             (case getitem x2 ''sigma'' of
                Inl err \<Rightarrow> (self, [s, actor_head_slot], Inl err)
              | Inr sigma \<Rightarrow>
                  (self, [s, actor_head_slot], Inr [(''logit'', PyList [mu, sigma])])))
           else (self, [s, actor_head_slot], Inr x2)))"
  using assms by (auto simp: actor_side_def compute_actor_def split: if_splits)

lemma compute_critic_via_side:
  assumes "critic_side self = (s, Some e)"
  shows "compute_critic run_enc run_head self x =
     (case run_enc e x of
        Inl err \<Rightarrow> (self, [s], Inl err)
      | Inr x1 \<Rightarrow>
      (case run_head (critic_head self) x1 of
         Inl err \<Rightarrow> (self, [s, critic_head_slot], Inl err)
       | Inr x2 \<Rightarrow>
      (case getitem x2 ''pred'' of
         Inl err \<Rightarrow> (self, [s, critic_head_slot], Inl err)
       | Inr pred \<Rightarrow> (self, [s, critic_head_slot], Inr [(''value'', pred)]))))"
  using assms by (auto simp: critic_side_def compute_critic_def split: if_splits)

lemma constructed_sides:
  assumes "VAC_init squeeze init obs0 act0 sh co hsl ahs aln chs cln a nt = (slots, Inr self)"
  shows "\<exists>cls ea ec.
           select_encoder_cls (squeeze obs0) = Inr cls \<and>
           construct_encoder cls (init (if sh then encoder_slot else actor_encoder_slot))
             (squeeze obs0) hsl a nt = Inr ea \<and>
           construct_encoder cls (init (if sh then encoder_slot else critic_encoder_slot))
             (squeeze obs0) hsl a nt = Inr ec \<and>
           actor_side self = (if sh then encoder_slot else actor_encoder_slot, Some ea) \<and>
           critic_side self = (if sh then encoder_slot else critic_encoder_slot, Some ec)"
  using VAC_init_Inr [OF assms]
  by (cases sh) (auto simp: actor_side_def critic_side_def)

subsection \<open>Claims\<close>

text \<open>
  C4. On tensor shapes, with the encoders and heads of ding modelled from the spec. For a
  model that \<open>__init__\<close> has built and a batch of \<open>B\<close> observations of the configured
  shape: \<open>compute_critic\<close> returns under \<open>value\<close> a tensor of shape \<open>(B,)\<close>, and
  \<open>compute_actor\<close> returns under \<open>logit\<close> a tensor whose last dimension is the action
  size (two such tensors when continuous, one per action sub-dimension under a multi-head);
  they return these exactly when the last encoder hidden size is the hidden size of the
  head, and a framework error otherwise. For \<open>VAC(64, 64)\<close> and a batch of four vectors of
  length 64, \<open>compute_actor_critic\<close> returns a logit of shape \<open>(4, 64)\<close> and a value of
  shape \<open>(4,)\<close>.
\<close>

theorem output_shapes:
  "(\<forall>slots self.
      VAC_init squeeze init obs0 act0 sh co hsl ahs aln chs cln a nt = (slots, Inr self) \<longrightarrow>
      snd (snd (compute_critic encoder_shape head_shape self (B # obs_dims (squeeze obs0)))) =
        (if hsl \<noteq> [] \<and> last hsl = chs then Inr [(''value'', Tensor [B])]
         else Inl FrameworkError) \<and>
      snd (snd (compute_actor encoder_shape head_shape self (B # obs_dims (squeeze obs0)))) =
        (if hsl \<noteq> [] \<and> last hsl = ahs then
           (case squeeze act0 of
              SInt n \<Rightarrow>
                Inr [(''logit'',
                      if co then PyList [Tensor [B, n], Tensor [B, n]] else Tensor [B, n])]
            | SSeq ns \<Rightarrow>
                if co then Inl FrameworkError
                else Inr [(''logit'', PyList (map (\<lambda>n. Tensor [B, n]) ns))])
         else Inl FrameworkError)) \<and>
   (squeeze (SInt 64) = SInt 64 \<longrightarrow>
      (\<exists>self.
         VAC_default squeeze init (SInt 64) (SInt 64) =
           ([encoder_slot, critic_head_slot, actor_head_slot], Inr self) \<and>
         compute_actor_critic encoder_shape head_shape self [4, 64] =
           (self, [encoder_slot, critic_head_slot, actor_head_slot],
            Inr [(''logit'', Tensor [4, 64]), (''value'', Tensor [4])])))"
proof (intro conjI allI impI)
  fix slots self
  assume built: "VAC_init squeeze init obs0 act0 sh co hsl ahs aln chs cln a nt = (slots, Inr self)"
  let ?x = "B # obs_dims (squeeze obs0)"
  from constructed_sides [OF built] obtain cls ea ec where
    sel: "select_encoder_cls (squeeze obs0) = Inr cls"
    and ea: "construct_encoder cls (init (if sh then encoder_slot else actor_encoder_slot))
               (squeeze obs0) hsl a nt = Inr ea"
    and ec: "construct_encoder cls (init (if sh then encoder_slot else critic_encoder_slot))
               (squeeze obs0) hsl a nt = Inr ec"
    and aside: "actor_side self = (if sh then encoder_slot else actor_encoder_slot, Some ea)"
    and cside: "critic_side self = (if sh then encoder_slot else critic_encoder_slot, Some ec)"
    by blast
  from VAC_init_Inr [OF built] have
    ch: "critic_head self = RegressionHead (init critic_head_slot) chs 1 cln a nt"
    and ah: "actor_head self =
               snd (build_actor_head (init actor_head_slot) co (squeeze act0) ahs aln a nt)"
    and co: "continuous self = co"
    by (auto dest: arg_cong [where f = snd])
  have xa: "encoder_shape ea ?x = (if hsl \<noteq> [] then Inr [B, last hsl] else Inl FrameworkError)"
    by (rule encoder_shape_constructed [OF sel ea])
  have xc: "encoder_shape ec ?x = (if hsl \<noteq> [] then Inr [B, last hsl] else Inl FrameworkError)"
    by (rule encoder_shape_constructed [OF sel ec])
  show "snd (snd (compute_critic encoder_shape head_shape self ?x)) =
        (if hsl \<noteq> [] \<and> last hsl = chs then Inr [(''value'', Tensor [B])]
         else Inl FrameworkError)"
    unfolding compute_critic_via_side [OF cside] xc ch
    by (simp add: getitem_def)
  have hs: "head_shape (actor_head self) [B, k] =
     (if k = ahs then
        (case squeeze act0 of
           SInt n \<Rightarrow>
             Inr (if co then [(''mu'', Tensor [B, n]), (''sigma'', Tensor [B, n])]
                  else [(''logit'', Tensor [B, n])])
         | SSeq ns \<Rightarrow>
             if co then Inl FrameworkError
             else Inr [(''logit'', PyList (map (\<lambda>n. Tensor [B, n]) ns))])
      else Inl FrameworkError)" for k
    using actor_head_shape [of "init actor_head_slot" co "squeeze act0" ahs aln a nt "[B]" k]
    by (cases "squeeze act0") (simp_all add: ah)
  show "snd (snd (compute_actor encoder_shape head_shape self ?x)) =
        (if hsl \<noteq> [] \<and> last hsl = ahs then
           (case squeeze act0 of
              SInt n \<Rightarrow>
                Inr [(''logit'',
                      if co then PyList [Tensor [B, n], Tensor [B, n]] else Tensor [B, n])]
            | SSeq ns \<Rightarrow>
                if co then Inl FrameworkError
                else Inr [(''logit'', PyList (map (\<lambda>n. Tensor [B, n]) ns))])
         else Inl FrameworkError)"
    unfolding compute_actor_via_side [OF aside] xa co
    by (simp add: hs getitem_def split: shape.splits)
next
  assume sq: "squeeze (SInt 64) = SInt 64"
  let ?m = "\<lparr> vac_obs_shape = SInt 64, action_shape = SInt 64, share_encoder = True,
       encoder = Some (FCEncoder (init encoder_slot) (SInt 64) [128, 128, 64] (Some ReLU) None),
       actor_encoder = None, critic_encoder = None,
       critic_head = RegressionHead (init critic_head_slot) 64 1 1 (Some ReLU) None,
       continuous = False, multi_head = False,
       actor_head = DiscreteHead (init actor_head_slot) 64 (SInt 64) 2 (Some ReLU) None,
       actor = [Enc (FCEncoder (init encoder_slot) (SInt 64) [128, 128, 64] (Some ReLU) None),
                Hd (DiscreteHead (init actor_head_slot) 64 (SInt 64) 2 (Some ReLU) None)],
       critic = [Enc (FCEncoder (init encoder_slot) (SInt 64) [128, 128, 64] (Some ReLU) None),
                 Hd (RegressionHead (init critic_head_slot) 64 1 1 (Some ReLU) None)] \<rparr>"
  have 1: "VAC_default squeeze init (SInt 64) (SInt 64) =
           ([encoder_slot, critic_head_slot, actor_head_slot], Inr ?m)"
    by (simp add: VAC_default_def VAC_init_def select_encoder_cls_def build_encoders_def
        construct_encoder_def build_actor_head_def Let_def sq)
  have 2: "compute_actor_critic encoder_shape head_shape ?m [4, 64] =
           (?m, [encoder_slot, critic_head_slot, actor_head_slot],
            Inr [(''logit'', Tensor [4, 64]), (''value'', Tensor [4])])"
    by (simp add: compute_actor_critic_def embeddings_def obs_width_def getitem_def)
  from 1 2 show "\<exists>self.
         VAC_default squeeze init (SInt 64) (SInt 64) =
           ([encoder_slot, critic_head_slot, actor_head_slot], Inr self) \<and>
         compute_actor_critic encoder_shape head_shape self [4, 64] =
           (self, [encoder_slot, critic_head_slot, actor_head_slot],
            Inr [(''logit'', Tensor [4, 64]), (''value'', Tensor [4])])"
    by blast
qed

text \<open>The theorem at the model of the docstring examples and at a model with separate
  convolutional encoders for observations of shape \<open>(2, 3, 3)\<close>.\<close>

theorem output_shapes_witness:
  "(VAC_init (\<lambda>s. s) (\<lambda>_. ()) (SInt 64) (SInt 64) True False [128, 128, 64] 64 2 64 1
     (Some ReLU) None = ([encoder_slot, critic_head_slot, actor_head_slot], Inr VAC_64_64) \<and>
   snd (snd (compute_critic encoder_shape head_shape VAC_64_64 [4, 64])) =
     Inr [(''value'', Tensor [4])] \<and>
   snd (snd (compute_actor encoder_shape head_shape VAC_64_64 [4, 64])) =
     Inr [(''logit'', Tensor [4, 64])] \<and>
   (\<exists>self.
      VAC_default (\<lambda>s. s) (\<lambda>_. ()) (SInt 64) (SInt 64) =
        ([encoder_slot, critic_head_slot, actor_head_slot], Inr self) \<and>
      compute_actor_critic encoder_shape head_shape self [4, 64] =
        (self, [encoder_slot, critic_head_slot, actor_head_slot],
         Inr [(''logit'', Tensor [4, 64]), (''value'', Tensor [4])]))) \<and>
   (\<exists>self.
      VAC_init (\<lambda>s. s) (\<lambda>_. ()) (SSeq [2, 3, 3]) (SInt 6) False False [128, 128, 64] 64 2 64 1
        (Some ReLU) None =
        ([actor_encoder_slot, critic_encoder_slot, critic_head_slot, actor_head_slot], Inr self) \<and>
      snd (snd (compute_critic encoder_shape head_shape self [5, 2, 3, 3])) =
        Inr [(''value'', Tensor [5])] \<and>
      snd (snd (compute_actor encoder_shape head_shape self [5, 2, 3, 3])) =
        Inr [(''logit'', Tensor [5, 6])])"
proof -
  have A: "VAC_init (\<lambda>s. s) (\<lambda>_. ()) (SInt 64) (SInt 64) True False [128, 128, 64] 64 2 64 1
     (Some ReLU) None = ([encoder_slot, critic_head_slot, actor_head_slot], Inr VAC_64_64) \<and>
   snd (snd (compute_critic encoder_shape head_shape VAC_64_64 [4, 64])) =
     Inr [(''value'', Tensor [4])] \<and>
   snd (snd (compute_actor encoder_shape head_shape VAC_64_64 [4, 64])) =
     Inr [(''logit'', Tensor [4, 64])] \<and>
   (\<exists>self.
      VAC_default (\<lambda>s. s) (\<lambda>_. ()) (SInt 64) (SInt 64) =
        ([encoder_slot, critic_head_slot, actor_head_slot], Inr self) \<and>
      compute_actor_critic encoder_shape head_shape self [4, 64] =
        (self, [encoder_slot, critic_head_slot, actor_head_slot],
         Inr [(''logit'', Tensor [4, 64]), (''value'', Tensor [4])]))"
  proof -
    have built: "VAC_init (\<lambda>s. s) (\<lambda>_. ()) (SInt 64) (SInt 64) True False [128, 128, 64] 64 2 64 1
       (Some ReLU) None = ([encoder_slot, critic_head_slot, actor_head_slot], Inr VAC_64_64)"
      using VAC_default_64_64 by (simp add: VAC_default_def)
    note t = output_shapes [where squeeze = "\<lambda>s. s" and init = "\<lambda>_. ()" and ?obs0.0 = "SInt 64"
        and ?act0.0 = "SInt 64" and sh = True and co = False and hsl = "[128, 128, 64]"
        and ahs = 64 and aln = 2 and chs = 64 and cln = 1 and a = "Some ReLU" and nt = None
        and B = 4]
    from t built have
      "snd (snd (compute_critic encoder_shape head_shape VAC_64_64 (4 # obs_dims (SInt 64)))) =
         Inr [(''value'', Tensor [4])] \<and>
       snd (snd (compute_actor encoder_shape head_shape VAC_64_64 (4 # obs_dims (SInt 64)))) =
         Inr [(''logit'', Tensor [4, 64])]"
      by simp
    moreover from t have "\<exists>self.
        VAC_default (\<lambda>s. s) (\<lambda>_. ()) (SInt 64) (SInt 64) =
          ([encoder_slot, critic_head_slot, actor_head_slot], Inr self) \<and>
        compute_actor_critic encoder_shape head_shape self [4, 64] =
          (self, [encoder_slot, critic_head_slot, actor_head_slot],
           Inr [(''logit'', Tensor [4, 64]), (''value'', Tensor [4])])"
      by simp
    ultimately show ?thesis
      using built by (simp add: obs_dims_def)
  qed
  have B: "\<exists>self.
      VAC_init (\<lambda>s. s) (\<lambda>_. ()) (SSeq [2, 3, 3]) (SInt 6) False False [128, 128, 64] 64 2 64 1
        (Some ReLU) None =
        ([actor_encoder_slot, critic_encoder_slot, critic_head_slot, actor_head_slot], Inr self) \<and>
      snd (snd (compute_critic encoder_shape head_shape self [5, 2, 3, 3])) =
        Inr [(''value'', Tensor [5])] \<and>
      snd (snd (compute_actor encoder_shape head_shape self [5, 2, 3, 3])) =
        Inr [(''logit'', Tensor [5, 6])]"
  proof -
    have c: "ConvEncoder_init [2, 3, 3] [128, 128, 64] (Some ReLU) None =
       Inr \<lparr> obs_shape = [2, 3, 3], act = Some ReLU, hidden_size_list = [4, 4, 4],
             main = [Conv2d 2 128 1 1, ActLayer (Some ReLU), Conv2d 128 128 1 1, ActLayer (Some ReLU),
                     Conv2d 128 64 1 1, ActLayer (Some ReLU), Flatten],
             mid = Linear 576 64 \<rparr>"
      by (simp add: ConvEncoder_init_eq)
    obtain m where b: "VAC_init (\<lambda>s. s) (\<lambda>_. ()) (SSeq [2, 3, 3]) (SInt 6) False False [128, 128, 64] 64 2 64 1
          (Some ReLU) None =
          ([actor_encoder_slot, critic_encoder_slot, critic_head_slot, actor_head_slot], Inr m)"
      by (simp add: VAC_init_def select_encoder_cls_def build_encoders_def
          construct_encoder_def build_actor_head_def Let_def c)
    note t = output_shapes [where squeeze = "\<lambda>s. s" and init = "\<lambda>_. ()" and ?obs0.0 = "SSeq [2, 3, 3]"
        and ?act0.0 = "SInt 6" and sh = False and co = False and hsl = "[128, 128, 64]"
        and ahs = 64 and aln = 2 and chs = 64 and cln = 1 and a = "Some ReLU" and nt = None
        and B = 5]
    from t b have
      "snd (snd (compute_critic encoder_shape head_shape m (5 # obs_dims (SSeq [2, 3, 3])))) =
          Inr [(''value'', Tensor [5])] \<and>
        snd (snd (compute_actor encoder_shape head_shape m (5 # obs_dims (SSeq [2, 3, 3])))) =
          Inr [(''logit'', Tensor [5, 6])]"
      by simp
    with b show ?thesis by (auto simp: obs_dims_def)
  qed
  from A B show ?thesis by (rule conjI)
qed

text \<open>
  C6. For a model that \<open>__init__\<close> has built: \<open>compute_actor\<close> calls the encoder of the
  actor's side (the shared encoder, or \<open>actor_encoder\<close>) and then the actor head. When the
  model is continuous and the head returns \<open>mu\<close> and \<open>sigma\<close>, the result is the two-element
  list of them under the one key \<open>logit\<close>; when it is discrete, the result is what the head
  returns. The head is a \<open>ReparameterizationHead\<close> when continuous, else a \<open>DiscreteHead\<close>
  for an integer action shape and a \<open>MultiHead\<close> of \<open>DiscreteHead\<close> for a sequence. With
  the heads modelled from the spec, on the shape of an embedding: the discrete head returns
  one logit tensor, the multi-head one logit tensor per action sub-dimension.
\<close>

theorem compute_actor_structure:
  assumes "VAC_init squeeze init obs0 act0 sh co hsl ahs aln chs cln a nt = (slots, Inr self)"
  shows "(\<exists>e. actor_side self = (if sh then encoder_slot else actor_encoder_slot, Some e)) \<and>
         (\<forall>s e emb out.
            actor_side self = (s, Some e) \<longrightarrow>
            run_enc e x = Inr emb \<longrightarrow> run_head (actor_head self) emb = Inr out \<longrightarrow>
              (co \<longrightarrow>
                 (\<forall>mu sigma.
                    getitem out ''mu'' = Inr mu \<longrightarrow> getitem out ''sigma'' = Inr sigma \<longrightarrow>
                    compute_actor run_enc run_head self x =
                      (self, [s, actor_head_slot], Inr [(''logit'', PyList [mu, sigma])]))) \<and>
              (\<not> co \<longrightarrow>
                 compute_actor run_enc run_head self x =
                   (self, [s, actor_head_slot], Inr out))) \<and>
         actor_head self =
           (if co then
              ReparameterizationHead (init actor_head_slot) ahs (squeeze act0) aln
                ''independent'' a nt
            else
              (case squeeze act0 of
                 SInt n \<Rightarrow> DiscreteHead (init actor_head_slot) ahs (SInt n) aln a nt
               | SSeq ns \<Rightarrow>
                   MultiHead (init actor_head_slot) DiscreteHead_cls ahs (SSeq ns) aln a nt)) \<and>
         (\<forall>bs. head_shape (actor_head self) (bs @ [ahs]) =
            (case squeeze act0 of
               SInt n \<Rightarrow>
                 Inr (if co then [(''mu'', Tensor (bs @ [n])), (''sigma'', Tensor (bs @ [n]))]
                      else [(''logit'', Tensor (bs @ [n]))])
             | SSeq ns \<Rightarrow>
                 if co then Inl FrameworkError
                 else Inr [(''logit'', PyList (map (\<lambda>n. Tensor (bs @ [n])) ns))]))"
proof -
  from constructed_sides [OF assms] have
    side: "\<exists>e. actor_side self = (if sh then encoder_slot else actor_encoder_slot, Some e)"
    by blast
  from VAC_init_Inr [OF assms] have
    ah: "actor_head self =
               snd (build_actor_head (init actor_head_slot) co (squeeze act0) ahs aln a nt)"
    and co: "continuous self = co"
    by (auto dest: arg_cong [where f = snd])
  have cls: "actor_head self =
             (if co then
                ReparameterizationHead (init actor_head_slot) ahs (squeeze act0) aln
                  ''independent'' a nt
              else
                (case squeeze act0 of
                   SInt n \<Rightarrow> DiscreteHead (init actor_head_slot) ahs (SInt n) aln a nt
                 | SSeq ns \<Rightarrow>
                     MultiHead (init actor_head_slot) DiscreteHead_cls ahs (SSeq ns) aln a nt))"
    unfolding ah by (simp add: build_actor_head_def split: shape.splits)
  have shp: "head_shape (actor_head self) (bs @ [ahs]) =
              (case squeeze act0 of
                 SInt n \<Rightarrow>
                   Inr (if co then [(''mu'', Tensor (bs @ [n])), (''sigma'', Tensor (bs @ [n]))]
                        else [(''logit'', Tensor (bs @ [n]))])
               | SSeq ns \<Rightarrow>
                   if co then Inl FrameworkError
                   else Inr [(''logit'', PyList (map (\<lambda>n. Tensor (bs @ [n])) ns))])" for bs
    unfolding ah actor_head_shape by simp
  have run: "(co \<longrightarrow>
                   (\<forall>mu sigma.
                      getitem out ''mu'' = Inr mu \<longrightarrow> getitem out ''sigma'' = Inr sigma \<longrightarrow>
                      compute_actor run_enc run_head self x =
                        (self, [s, actor_head_slot], Inr [(''logit'', PyList [mu, sigma])]))) \<and>
                (\<not> co \<longrightarrow>
                   compute_actor run_enc run_head self x =
                     (self, [s, actor_head_slot], Inr out))"
    if "actor_side self = (s, Some e)" "run_enc e x = Inr emb"
      "run_head (actor_head self) emb = Inr out"
    for s e emb out
    unfolding compute_actor_via_side [OF that(1)] using that(2,3) co by simp
  from side cls shp run show ?thesis by blast
qed

text \<open>The theorem at the model of the docstring examples, at a continuous model with two
  actions and at a discrete model with the action shape \<open>(3, 5)\<close>.\<close>

theorem compute_actor_structure_witness:
  "(VAC_init (\<lambda>s. s) (\<lambda>_. ()) (SInt 64) (SInt 64) True False [128, 128, 64] 64 2 64 1
     (Some ReLU) None = ([encoder_slot, critic_head_slot, actor_head_slot], Inr VAC_64_64) \<and>
   actor_side VAC_64_64 =
     (encoder_slot, Some (FCEncoder () (SInt 64) [128, 128, 64] (Some ReLU) None)) \<and>
   actor_head VAC_64_64 = DiscreteHead () 64 (SInt 64) 2 (Some ReLU) None \<and>
   compute_actor encoder_shape head_shape VAC_64_64 [4, 64] =
     (VAC_64_64, [encoder_slot, actor_head_slot], Inr [(''logit'', Tensor [4, 64])])) \<and>
   ((\<exists>self.
      VAC_init (\<lambda>s. s) (\<lambda>_. ()) (SInt 64) (SInt 2) True True [128, 128, 64] 64 2 64 1
        (Some ReLU) None = ([encoder_slot, critic_head_slot, actor_head_slot], Inr self) \<and>
      actor_head self = ReparameterizationHead () 64 (SInt 2) 2 ''independent'' (Some ReLU) None \<and>
      compute_actor encoder_shape head_shape self [4, 64] =
        (self, [encoder_slot, actor_head_slot],
         Inr [(''logit'', PyList [Tensor [4, 2], Tensor [4, 2]])])) \<and>
   (\<exists>self.
      VAC_init (\<lambda>s. s) (\<lambda>_. ()) (SInt 64) (SSeq [3, 5]) False False [128, 128, 64] 64 2 64 1
        (Some ReLU) None =
        ([actor_encoder_slot, critic_encoder_slot, critic_head_slot, actor_head_slot], Inr self) \<and>
      actor_head self = MultiHead () DiscreteHead_cls 64 (SSeq [3, 5]) 2 (Some ReLU) None \<and>
      compute_actor encoder_shape head_shape self [4, 64] =
        (self, [actor_encoder_slot, actor_head_slot],
         Inr [(''logit'', PyList [Tensor [4, 3], Tensor [4, 5]])])))"
proof -
  have A: "VAC_init (\<lambda>s. s) (\<lambda>_. ()) (SInt 64) (SInt 64) True False [128, 128, 64] 64 2 64 1
     (Some ReLU) None = ([encoder_slot, critic_head_slot, actor_head_slot], Inr VAC_64_64) \<and>
   actor_side VAC_64_64 =
     (encoder_slot, Some (FCEncoder () (SInt 64) [128, 128, 64] (Some ReLU) None)) \<and>
   actor_head VAC_64_64 = DiscreteHead () 64 (SInt 64) 2 (Some ReLU) None \<and>
   compute_actor encoder_shape head_shape VAC_64_64 [4, 64] =
     (VAC_64_64, [encoder_slot, actor_head_slot], Inr [(''logit'', Tensor [4, 64])])"
  proof -
    have built: "VAC_init (\<lambda>s. s) (\<lambda>_. ()) (SInt 64) (SInt 64) True False [128, 128, 64] 64 2 64 1
       (Some ReLU) None = ([encoder_slot, critic_head_slot, actor_head_slot], Inr VAC_64_64)"
      using VAC_default_64_64 by (simp add: VAC_default_def)
    note t = compute_actor_structure [OF built, where run_enc = encoder_shape
        and run_head = head_shape and x = "[4, 64]"]
    have side: "actor_side VAC_64_64 =
       (encoder_slot, Some (FCEncoder () (SInt 64) [128, 128, 64] (Some ReLU) None))"
      by (simp add: actor_side_def VAC_64_64_def)
    have e: "encoder_shape (FCEncoder () (SInt 64) [128, 128, 64] (Some ReLU) None) [4, 64] =
               Inr [4, 64]"
      by (simp add: obs_width_def)
    from t have h: "actor_head VAC_64_64 = DiscreteHead () 64 (SInt 64) 2 (Some ReLU) None"
      by simp
    have o: "head_shape (actor_head VAC_64_64) [4, 64] = Inr [(''logit'', Tensor [4, 64])]"
      by (simp add: h)
    from t side e o have
      "compute_actor encoder_shape head_shape VAC_64_64 [4, 64] =
         (VAC_64_64, [encoder_slot, actor_head_slot], Inr [(''logit'', Tensor [4, 64])])"
      by blast
    with built side h show ?thesis by blast
  qed
  have B: "(\<exists>self.
      VAC_init (\<lambda>s. s) (\<lambda>_. ()) (SInt 64) (SInt 2) True True [128, 128, 64] 64 2 64 1
        (Some ReLU) None = ([encoder_slot, critic_head_slot, actor_head_slot], Inr self) \<and>
      actor_head self = ReparameterizationHead () 64 (SInt 2) 2 ''independent'' (Some ReLU) None \<and>
      compute_actor encoder_shape head_shape self [4, 64] =
        (self, [encoder_slot, actor_head_slot],
         Inr [(''logit'', PyList [Tensor [4, 2], Tensor [4, 2]])])) \<and>
   (\<exists>self.
      VAC_init (\<lambda>s. s) (\<lambda>_. ()) (SInt 64) (SSeq [3, 5]) False False [128, 128, 64] 64 2 64 1
        (Some ReLU) None =
        ([actor_encoder_slot, critic_encoder_slot, critic_head_slot, actor_head_slot], Inr self) \<and>
      actor_head self = MultiHead () DiscreteHead_cls 64 (SSeq [3, 5]) 2 (Some ReLU) None \<and>
      compute_actor encoder_shape head_shape self [4, 64] =
        (self, [actor_encoder_slot, actor_head_slot],
         Inr [(''logit'', PyList [Tensor [4, 3], Tensor [4, 5]])]))"
  proof -
    let ?e = "FCEncoder () (SInt 64) [128, 128, 64] (Some ReLU) None"
    have e: "encoder_shape ?e [4, 64] = Inr [4, 64]"
      by (simp add: obs_width_def)
    obtain m1 where b1: "VAC_init (\<lambda>s. s) (\<lambda>_. ()) (SInt 64) (SInt 2) True True [128, 128, 64] 64 2 64 1
          (Some ReLU) None = ([encoder_slot, critic_head_slot, actor_head_slot], Inr m1)"
      by (simp add: VAC_init_def select_encoder_cls_def build_encoders_def
          construct_encoder_def build_actor_head_def Let_def)
    note t1 = compute_actor_structure [OF b1, where run_enc = encoder_shape
        and run_head = head_shape and x = "[4, 64]"]
    from VAC_init_Inr [OF b1] have s1: "actor_side m1 = (encoder_slot, Some ?e)"
      by (auto simp: actor_side_def construct_encoder_def select_encoder_cls_def)
    from t1 have h1: "actor_head m1 =
        ReparameterizationHead () 64 (SInt 2) 2 ''independent'' (Some ReLU) None"
      by simp
    have o1: "head_shape (actor_head m1) [4, 64] =
        Inr [(''mu'', Tensor [4, 2]), (''sigma'', Tensor [4, 2])]"
      by (simp add: h1)
    have g1: "getitem [(''mu'', Tensor [4, 2::nat]), (''sigma'', Tensor [4, 2])] ''mu'' = Inr (Tensor [4, 2])"
      "getitem [(''mu'', Tensor [4, 2::nat]), (''sigma'', Tensor [4, 2])] ''sigma'' = Inr (Tensor [4, 2])"
      by (simp_all add: getitem_def)
    from t1 s1 e o1 g1 have r1:
      "compute_actor encoder_shape head_shape m1 [4, 64] =
          (m1, [encoder_slot, actor_head_slot],
           Inr [(''logit'', PyList [Tensor [4, 2], Tensor [4, 2]])])"
      by blast
    obtain m2 where b2: "VAC_init (\<lambda>s. s) (\<lambda>_. ()) (SInt 64) (SSeq [3, 5]) False False [128, 128, 64] 64 2 64 1
          (Some ReLU) None =
          ([actor_encoder_slot, critic_encoder_slot, critic_head_slot, actor_head_slot], Inr m2)"
      by (simp add: VAC_init_def select_encoder_cls_def build_encoders_def
          construct_encoder_def build_actor_head_def Let_def)
    note t2 = compute_actor_structure [OF b2, where run_enc = encoder_shape
        and run_head = head_shape and x = "[4, 64]"]
    from VAC_init_Inr [OF b2] have s2: "actor_side m2 = (actor_encoder_slot, Some ?e)"
      by (auto simp: actor_side_def construct_encoder_def select_encoder_cls_def)
    from t2 have h2: "actor_head m2 =
        MultiHead () DiscreteHead_cls 64 (SSeq [3, 5]) 2 (Some ReLU) None"
      by simp
    have o2: "head_shape (actor_head m2) [4, 64] =
        Inr [(''logit'', PyList [Tensor [4, 3], Tensor [4, 5]])]"
      by (simp add: h2)
    from t2 s2 e o2 have r2:
      "compute_actor encoder_shape head_shape m2 [4, 64] =
          (m2, [actor_encoder_slot, actor_head_slot],
           Inr [(''logit'', PyList [Tensor [4, 3], Tensor [4, 5]])])"
      by blast
    from b1 h1 r1 b2 h2 r2 show ?thesis by blast
  qed
  from A B show ?thesis by (rule conjI)
qed

section \<open>The modes on objects that a pass may change\<close>

subsection \<open>Auxiliary facts\<close>



lemma config_share: "config a = config b \<Longrightarrow> share_encoder a = share_encoder b"
  and config_continuous: "config a = config b \<Longrightarrow> continuous a = continuous b"
  by (simp_all add: config_def)
















text \<open>\<open>ConvEncoder.forward\<close> assigns to no attribute: the fields that are not sub-modules
  stay as they were, and the encoder does when the passes of \<open>self.main\<close> and \<open>self.mid\<close>
  leave their objects as they were.\<close>

lemma ConvEncoder_forward_st_fields:
  "obs_shape (fst (ConvEncoder_forward_st to_float main_pass mid_pass enc y)) = obs_shape enc \<and>
   act (fst (ConvEncoder_forward_st to_float main_pass mid_pass enc y)) = act enc \<and>
   hidden_size_list (fst (ConvEncoder_forward_st to_float main_pass mid_pass enc y)) =
     hidden_size_list enc"
  by (simp add: ConvEncoder_forward_st_def Let_def split: prod.splits sum.splits)



text \<open>A pass that does change its object is seen: with an encoder pass that counts its
  calls in the encoder's parameters and returns the count with its result, \<open>compute_actor\<close>
  leaves another model than it was called on, and a second call returns another result.\<close>

lemma changing_pass_is_seen:
  "\<exists>enc_pass head_pass (self :: nat vac) (x :: nat list).
     VAC_default (\<lambda>s. s) (\<lambda>_. 0) (SInt 64) (SInt 64) =
       ([encoder_slot, critic_head_slot, actor_head_slot], Inr self) \<and>
     fst (compute_actor_st enc_pass head_pass self x) \<noteq> self \<and>
     snd (snd (compute_actor_st enc_pass head_pass
                 (fst (compute_actor_st enc_pass head_pass self x)) x)) \<noteq>
     snd (snd (compute_actor_st enc_pass head_pass self x))"
proof -
  let ?ep = "\<lambda>e (x :: nat list).
    (case e of
       FCEncoder w s hsl a nt \<Rightarrow> (FCEncoder (Suc w) s hsl a nt, Inr (w # x) :: error + nat list)
     | ConvEncoder w ce \<Rightarrow> (ConvEncoder (Suc w) ce, Inr (w # x)))"
  let ?hp = "\<lambda>(h :: nat head) (x :: nat list).
    (h, Inr [(''logit'', Tensor x)] :: error + nat list pydict)"
  let ?m = "\<lparr> vac_obs_shape = SInt 64, action_shape = SInt 64, share_encoder = True,
       encoder = Some (FCEncoder (0::nat) (SInt 64) [128, 128, 64] (Some ReLU) None),
       actor_encoder = None, critic_encoder = None,
       critic_head = RegressionHead 0 64 1 1 (Some ReLU) None,
       continuous = False, multi_head = False,
       actor_head = DiscreteHead 0 64 (SInt 64) 2 (Some ReLU) None,
       actor = [Enc (FCEncoder 0 (SInt 64) [128, 128, 64] (Some ReLU) None),
                Hd (DiscreteHead 0 64 (SInt 64) 2 (Some ReLU) None)],
       critic = [Enc (FCEncoder 0 (SInt 64) [128, 128, 64] (Some ReLU) None),
                 Hd (RegressionHead 0 64 1 1 (Some ReLU) None)] \<rparr>"
  have b: "VAC_default (\<lambda>s. s) (\<lambda>_. 0) (SInt 64) (SInt 64) =
       ([encoder_slot, critic_head_slot, actor_head_slot], Inr ?m)"
    by (simp add: VAC_default_def VAC_init_def select_encoder_cls_def build_encoders_def
        construct_encoder_def build_actor_head_def Let_def)
  have 1: "compute_actor_st ?ep ?hp ?m [] =
      (?m\<lparr> encoder := Some (FCEncoder 1 (SInt 64) [128, 128, 64] (Some ReLU) None),
           actor := [Enc (FCEncoder 1 (SInt 64) [128, 128, 64] (Some ReLU) None),
                     Hd (DiscreteHead 0 64 (SInt 64) 2 (Some ReLU) None)],
           critic := [Enc (FCEncoder 1 (SInt 64) [128, 128, 64] (Some ReLU) None),
                      Hd (RegressionHead 0 64 1 1 (Some ReLU) None)] \<rparr>,
       [encoder_slot, actor_head_slot], Inr [(''logit'', Tensor [0])])"
    by (simp add: compute_actor_st_def store_encoder_def store_head_def)
  have 2: "snd (snd (compute_actor_st ?ep ?hp (fst (compute_actor_st ?ep ?hp ?m [])) [])) =
      Inr [(''logit'', Tensor [1])]"
    unfolding 1 by (simp add: compute_actor_st_def store_encoder_def store_head_def)
  have "fst (compute_actor_st ?ep ?hp ?m []) \<noteq> ?m"
    unfolding 1 by simp
  moreover have "snd (snd (compute_actor_st ?ep ?hp (fst (compute_actor_st ?ep ?hp ?m [])) [])) \<noteq>
     snd (snd (compute_actor_st ?ep ?hp ?m []))"
    unfolding 2 unfolding 1 by simp
  ultimately show ?thesis using b by blast
qed

subsection \<open>Claims\<close>



end
